theory Spec2Isabelle
  imports Complex_Main "HOL-Library.Sublist"
begin

section \<open>Data model of \<^verbatim>\<open>tests/problems/eclproblem.hh\<close>\<close>

text \<open>
  The class \<^verbatim>\<open>EclProblem\<close> reads an Eclipse deck and fills per-cell and per-face
  arrays. Conventions of the embedding:

  \<^item> \<^verbatim>\<open>Scalar\<close> (a C++ \<^verbatim>\<open>double\<close>) is a real number, the value of a finite double.
    The two subtractions that give the oil saturation are the subtraction of doubles
    (round to nearest, ties to even), since the stored saturations depend on the rounding;
    the products and quotients of the permeabilities and of the PVT relations are exact.
    Infinities and NaN are outside the model.
  \<^item> \<^verbatim>\<open>DimMatrix\<close> (\<^verbatim>\<open>Dune::FieldMatrix<Scalar, dimWorld, dimWorld>\<close>) is a function of
    the row and the column index; only indices below \<open>dimWorld\<close> exist in the source.
  \<^item> \<^verbatim>\<open>std::vector\<close> is a list; \<^verbatim>\<open>v[i]\<close> is \<open>v ! i\<close>, which the source leaves undefined
    out of range, so the theorems state the index bounds they need.
  \<^item> \<^verbatim>\<open>size_t\<close> and non-negative \<^verbatim>\<open>int\<close> indices are natural numbers; the element count
    is an \<^verbatim>\<open>int\<close>, so \<^verbatim>\<open>elem1Idx*numElements + elem2Idx\<close> stays far below \<open>2^64\<close>.
  \<^item> An exception (\<^verbatim>\<open>OPM_THROW\<close>) and a failed \<^verbatim>\<open>assert\<close> are the \<open>Inl\<close> branch of a sum.
  \<^item> Isabelle refuses names that end in an underscore: the members \<^verbatim>\<open>porosity_\<close>,
    \<^verbatim>\<open>readMaterialParameters_\<close>, ... are written without it.
\<close>

type_synonym Scalar = real

subsection \<open>Double precision\<close>

text \<open>
  A double has 53 significant bits and a binary exponent between \<open>-1022\<close> and \<open>1023\<close>.
  \<open>binade x\<close> is the exponent \<open>e\<close> with \<open>2^e \<le> |x| < 2^(e + 1)\<close>, found by halving or
  doubling and held at \<open>-1022\<close> for the subnormal numbers; the doubles of that binade are
  the multiples of \<open>quantum x = 2^(e - 52)\<close>. \<open>roundToDouble\<close> takes a real to the nearest
  double, a tie to the one with the even significand. A result beyond the largest double
  would be an infinity and is outside the model.
\<close>

definition pow2 :: "int \<Rightarrow> real" where
  "pow2 k = (if 0 \<le> k then 2 ^ nat k else 1 / 2 ^ nat (- k))"

fun expUp :: "nat \<Rightarrow> real \<Rightarrow> int" where
  "expUp 0 x = 0"
| "expUp (Suc n) x = (if 2 \<le> x then expUp n (x / 2) + 1 else 0)"

fun expDown :: "nat \<Rightarrow> real \<Rightarrow> int" where
  "expDown 0 x = 0"
| "expDown (Suc n) x = (if x < 1 then expDown n (2 * x) - 1 else 0)"

definition binade :: "real \<Rightarrow> int" where
  "binade x = (if 1 \<le> \<bar>x\<bar> then expUp 1023 \<bar>x\<bar> else expDown 1022 \<bar>x\<bar>)"

definition quantum :: "real \<Rightarrow> real" where
  "quantum x = pow2 (binade x - 52)"

definition roundHalfEven :: "real \<Rightarrow> int" where
  "roundHalfEven y =
     (let f = \<lfloor>y\<rfloor>; d = y - of_int f
      in if d < 1 / 2 then f
         else if 1 / 2 < d then f + 1
         else if even f then f else f + 1)"

definition roundToDouble :: "real \<Rightarrow> Scalar" where
  "roundToDouble x = quantum x * of_int (roundHalfEven (x / quantum x))"

text \<open>\<^verbatim>\<open>a - b\<close> and \<^verbatim>\<open>a + b\<close> on two doubles.\<close>

definition doubleMinus :: "Scalar \<Rightarrow> Scalar \<Rightarrow> Scalar" where
  "doubleMinus a b = roundToDouble (a - b)"

definition doublePlus :: "Scalar \<Rightarrow> Scalar \<Rightarrow> Scalar" where
  "doublePlus a b = roundToDouble (a + b)"

subsection \<open>Tensors and errors\<close>

type_synonym DimMatrix = "nat \<Rightarrow> nat \<Rightarrow> Scalar"

definition dimWorld :: nat where
  "dimWorld = 3"

text \<open>\<^verbatim>\<open>K = 0.0\<close>, \<^verbatim>\<open>K[i][j] = v\<close> and \<^verbatim>\<open>K *= s\<close> on a field matrix.\<close>

definition zeroMatrix :: DimMatrix where
  "zeroMatrix = (\<lambda>i j. 0)"

definition setEntry :: "DimMatrix \<Rightarrow> nat \<Rightarrow> nat \<Rightarrow> Scalar \<Rightarrow> DimMatrix" where
  "setEntry K i j v = K(i := (K i)(j := v))"

definition scaleMatrix :: "DimMatrix \<Rightarrow> Scalar \<Rightarrow> DimMatrix" where
  "scaleMatrix K s = (\<lambda>i j. K i j * s)"

datatype error =
    LogicError string
  | RuntimeError string
  | KeywordNotFound string
  | AssertionFailed string

subsection \<open>The deck, the Eclipse state and the grid\<close>

record SwofTable =
  SwColumn :: "Scalar list"
  KrwColumn :: "Scalar list"
  KrowColumn :: "Scalar list"
  PcowColumn :: "Scalar list"

record SgofTable =
  SgColumn :: "Scalar list"
  KrgColumn :: "Scalar list"
  KrogColumn :: "Scalar list"
  PcogColumn :: "Scalar list"

text \<open>
  The deck is a keyed store. \<open>siDoubleData\<close> holds the keywords that are read with
  \<^verbatim>\<open>getSIDoubleData()\<close>; the two table keywords hold one table per saturation region, so
  \<^verbatim>\<open>SwofTable::numTables(swofKeyword)\<close> is the length of the list.
\<close>

record Deck =
  siDoubleData :: "string \<rightharpoonup> Scalar list"
  swofKeyword :: "SwofTable list option"
  sgofKeyword :: "SgofTable list option"

definition hasKeyword :: "Deck \<Rightarrow> string \<Rightarrow> bool" where
  "hasKeyword d name = (siDoubleData d name \<noteq> None)"

text \<open>
  Modelled from the spec: \<^verbatim>\<open>Deck::getKeyword\<close> belongs to the parser library and is not
  among the sources. The specification (sections 6 and 7) makes a missing required
  keyword the one error signal of the deck: it is fatal and the message names the key.
\<close>

definition getKeyword :: "'a option \<Rightarrow> string \<Rightarrow> error + 'a" where
  "getKeyword kw name = (case kw of None \<Rightarrow> Inl (KeywordNotFound name) | Some v \<Rightarrow> Inr v)"

record EclipseState =
  doubleGridProperty :: "string \<rightharpoonup> Scalar list"
  intGridProperty :: "string \<rightharpoonup> int list"

text \<open>
  One intersection of the leaf grid view, as the face loop reads it:
  \<^verbatim>\<open>neighbor()\<close>, the mapped indices of \<^verbatim>\<open>inside()\<close> and \<^verbatim>\<open>outside()\<close>, and
  \<^verbatim>\<open>indexInInside()\<close>.
\<close>

record Intersection =
  neighbor :: bool
  inside :: nat
  outside :: nat
  indexInInside :: int

text \<open>
  The grid: \<^verbatim>\<open>globalCell()\<close> maps an active cell to its index in the logical Cartesian
  grid; \<open>leafElements\<close> lists, for every element of the grid view in iteration order, its
  intersections in iteration order.
\<close>

record Grid =
  globalCell :: "nat list"
  logicalCartesianSize :: "nat \<times> nat \<times> nat"
  leafElements :: "Intersection list list"

record Simulator =
  deck :: Deck
  eclipseState :: EclipseState
  grid :: Grid
  numDof :: nat

subsection \<open>Fluid system, fluid states and material laws\<close>

datatype Phase = waterPhaseIdx | oilPhaseIdx | gasPhaseIdx

datatype Component = waterCompIdx | oilCompIdx | gasCompIdx

definition allPhases :: "Phase list" where
  "allPhases = [waterPhaseIdx, oilPhaseIdx, gasPhaseIdx]"

definition allComponents :: "Component list" where
  "allComponents = [waterCompIdx, oilCompIdx, gasCompIdx]"

text \<open>The black-oil PVT model, initialised before the problem reads the initial condition.\<close>

record FluidSystem =
  oilFormationVolumeFactor :: "Scalar \<Rightarrow> Scalar"
  gasDissolutionFactor :: "Scalar \<Rightarrow> Scalar"
  surfaceDensity :: "Phase \<Rightarrow> Scalar"
  molarMass :: "Component \<Rightarrow> Scalar"

record BlackOilFluidState =
  fsTemperature :: Scalar
  fsSaturation :: "Phase \<Rightarrow> Scalar"
  fsPressure :: "Phase \<Rightarrow> Scalar"
  fsMoleFraction :: "Phase \<Rightarrow> Component \<Rightarrow> Scalar"

definition setTemperature :: "Scalar \<Rightarrow> BlackOilFluidState \<Rightarrow> BlackOilFluidState" where
  "setTemperature T fs = fs\<lparr>fsTemperature := T\<rparr>"

definition setSaturation :: "Phase \<Rightarrow> Scalar \<Rightarrow> BlackOilFluidState \<Rightarrow> BlackOilFluidState" where
  "setSaturation phaseIdx S fs = fs\<lparr>fsSaturation := (fsSaturation fs)(phaseIdx := S)\<rparr>"

definition setPressure :: "Phase \<Rightarrow> Scalar \<Rightarrow> BlackOilFluidState \<Rightarrow> BlackOilFluidState" where
  "setPressure phaseIdx p fs = fs\<lparr>fsPressure := (fsPressure fs)(phaseIdx := p)\<rparr>"

definition setMoleFraction ::
  "Phase \<Rightarrow> Component \<Rightarrow> Scalar \<Rightarrow> BlackOilFluidState \<Rightarrow> BlackOilFluidState" where
  "setMoleFraction phaseIdx compIdx x fs =
     fs\<lparr>fsMoleFraction :=
          (fsMoleFraction fs)(phaseIdx := (fsMoleFraction fs phaseIdx)(compIdx := x))\<rparr>"

record TwoPhaseParams =
  SwSamples :: "Scalar list"
  KrwSamples :: "Scalar list"
  KrnSamples :: "Scalar list"
  PcnwSamples :: "Scalar list"

record MaterialLawParams =
  oilWaterParams :: TwoPhaseParams
  gasOilParams :: TwoPhaseParams

subsection \<open>The members of the problem\<close>

text \<open>
  \<open>materialParamTableIdx\<close> is a vector of \<^verbatim>\<open>unsigned short\<close>: a stored value is taken
  modulo \<open>2^16\<close>.
\<close>

record EclProblem =
  porosity :: "Scalar list"
  intrinsicPermeability :: "DimMatrix list"
  intersectionIntrinsicPermeability :: "nat \<rightharpoonup> DimMatrix"
  materialParamTableIdx :: "nat list"
  materialParams :: "MaterialLawParams list"
  initialFluidStates :: "BlackOilFluidState list"
  temperature :: Scalar

text \<open>The members of a problem under construction, before any of the readers ran.\<close>

definition newProblem :: "Scalar \<Rightarrow> EclProblem" where
  "newProblem T =
     \<lparr>porosity = [], intrinsicPermeability = [], intersectionIntrinsicPermeability = Map.empty,
      materialParamTableIdx = [], materialParams = [], initialFluidStates = [],
      temperature = T\<rparr>"

text \<open>
  A loop over the degrees of freedom whose body can fail: the first failure aborts the
  loop, otherwise entry \<open>dofIdx\<close> of the (resized) vector is the value the body computes.
\<close>

fun forEachDof :: "(nat \<Rightarrow> error + 'a) \<Rightarrow> nat list \<Rightarrow> error + 'a list" where
  "forEachDof body [] = Inr []"
| "forEachDof body (dofIdx # rest) =
     (case body dofIdx of
        Inl e \<Rightarrow> Inl e
      | Inr x \<Rightarrow> (case forEachDof body rest of Inl e \<Rightarrow> Inl e | Inr xs \<Rightarrow> Inr (x # xs)))"

section \<open>Face permeabilities: \<^verbatim>\<open>computeFaceIntrinsicPermeabilities_\<close>\<close>

text \<open>
  Modelled from the spec: \<^verbatim>\<open>Opm::utils::harmonicAverage\<close> comes from
  \<^verbatim>\<open>opm/core/utility/Average.hpp\<close>, which is not among the sources. The specification
  (section 4.2, step 4) gives \<open>2 * a * b / (a + b)\<close> with the convention that a harmonic
  average against a zero component is zero.
\<close>

definition harmonicAverage :: "Scalar \<Rightarrow> Scalar \<Rightarrow> Scalar" where
  "harmonicAverage a b = (if a = 0 \<or> b = 0 then 0 else 2 * a * b / (a + b))"

text \<open>
  \<^verbatim>\<open>K = 0.0; for i, j < dimWorld: K[i][j] = harmonicAverage(K1[i][j], K2[i][j])\<close>
\<close>

definition harmonicAverageMatrix :: "DimMatrix \<Rightarrow> DimMatrix \<Rightarrow> DimMatrix" where
  "harmonicAverageMatrix K1 K2 =
     (\<lambda>i j. if i < dimWorld \<and> j < dimWorld then harmonicAverage (K1 i j) (K2 i j) else 0)"

definition intersectIdx :: "nat \<Rightarrow> nat \<Rightarrow> nat \<Rightarrow> nat" where
  "intersectIdx numElements interiorElemIdx exteriorElemIdx =
     (let elem1Idx = min interiorElemIdx exteriorElemIdx;
          elem2Idx = max interiorElemIdx exteriorElemIdx
      in elem1Idx * numElements + elem2Idx)"

record Multipliers =
  multx :: "Scalar list"
  multy :: "Scalar list"
  multz :: "Scalar list"
  multxMinus :: "Scalar list"
  multyMinus :: "Scalar list"
  multzMinus :: "Scalar list"

definition multiplierData :: "EclipseState \<Rightarrow> string \<Rightarrow> nat \<Rightarrow> Scalar list" where
  "multiplierData es name numElements =
     (case doubleGridProperty es name of
        Some d \<Rightarrow> d
      | None \<Rightarrow> replicate numElements 1)"

definition loadMultipliers :: "EclipseState \<Rightarrow> nat \<Rightarrow> Multipliers" where
  "loadMultipliers es numElements =
     \<lparr>multx = multiplierData es ''MULTX'' numElements,
      multy = multiplierData es ''MULTY'' numElements,
      multz = multiplierData es ''MULTZ'' numElements,
      multxMinus = multiplierData es ''MULTX-'' numElements,
      multyMinus = multiplierData es ''MULTY-'' numElements,
      multzMinus = multiplierData es ''MULTZ-'' numElements\<rparr>"

text \<open>The chain of tests on \<^verbatim>\<open>insideFaceIdx\<close>, in the order of the source.\<close>

definition applyMultipliers ::
  "Multipliers \<Rightarrow> int \<Rightarrow> nat \<Rightarrow> nat \<Rightarrow> DimMatrix \<Rightarrow> DimMatrix \<Rightarrow> DimMatrix \<times> DimMatrix" where
  "applyMultipliers M insideFaceIdx interiorElemCartIdx exteriorElemCartIdx K1 K2 =
     (if insideFaceIdx = 1 then
        (scaleMatrix K1 (multx M ! interiorElemCartIdx),
         scaleMatrix K2 (multxMinus M ! exteriorElemCartIdx))
      else if insideFaceIdx = 0 then
        (scaleMatrix K1 (multxMinus M ! interiorElemCartIdx),
         scaleMatrix K2 (multx M ! exteriorElemCartIdx))
      else if insideFaceIdx = 3 then
        (scaleMatrix K1 (multy M ! interiorElemCartIdx),
         scaleMatrix K2 (multyMinus M ! exteriorElemCartIdx))
      else if insideFaceIdx = 2 then
        (scaleMatrix K1 (multyMinus M ! interiorElemCartIdx),
         scaleMatrix K2 (multy M ! exteriorElemCartIdx))
      else if insideFaceIdx = 5 then
        (scaleMatrix K1 (multz M ! interiorElemCartIdx),
         scaleMatrix K2 (multzMinus M ! exteriorElemCartIdx))
      else if insideFaceIdx = 4 then
        (scaleMatrix K1 (multzMinus M ! interiorElemCartIdx),
         scaleMatrix K2 (multz M ! exteriorElemCartIdx))
      else (K1, K2))"

text \<open>
  The two permeabilities of an interior intersection after the multipliers, and the
  tensor the loop stores for it.
\<close>

definition scaledPermeabilities ::
  "Multipliers \<Rightarrow> nat list \<Rightarrow> DimMatrix list \<Rightarrow> Intersection \<Rightarrow> DimMatrix \<times> DimMatrix" where
  "scaledPermeabilities M gc perm it =
     (let interiorElemIdx = inside it;
          exteriorElemIdx = outside it;
          K1 = perm ! interiorElemIdx;
          K2 = perm ! exteriorElemIdx;
          interiorElemCartIdx = gc ! interiorElemIdx;
          exteriorElemCartIdx = gc ! exteriorElemIdx;
          insideFaceIdx = indexInInside it
      in applyMultipliers M insideFaceIdx interiorElemCartIdx exteriorElemCartIdx K1 K2)"

definition faceTensor ::
  "Multipliers \<Rightarrow> nat list \<Rightarrow> DimMatrix list \<Rightarrow> Intersection \<Rightarrow> DimMatrix" where
  "faceTensor M gc perm it =
     (case scaledPermeabilities M gc perm it of (K1, K2) \<Rightarrow> harmonicAverageMatrix K1 K2)"

text \<open>The body of the inner loop: one intersection, visited from its inside element.\<close>

definition visitIntersection ::
  "Multipliers \<Rightarrow> nat list \<Rightarrow> DimMatrix list \<Rightarrow> nat \<Rightarrow> Intersection \<Rightarrow>
   (nat \<rightharpoonup> DimMatrix) \<Rightarrow> (nat \<rightharpoonup> DimMatrix)" where
  "visitIntersection M gc perm numElements it m =
     (if \<not> neighbor it then m
      else
        let k = intersectIdx numElements (inside it) (outside it)
        in if m k \<noteq> None then m
           else m(k \<mapsto> faceTensor M gc perm it))"

definition faceLoop ::
  "Multipliers \<Rightarrow> nat list \<Rightarrow> DimMatrix list \<Rightarrow> nat \<Rightarrow> Intersection list list \<Rightarrow>
   (nat \<rightharpoonup> DimMatrix) \<Rightarrow> (nat \<rightharpoonup> DimMatrix)" where
  "faceLoop M gc perm numElements elems m =
     fold (\<lambda>elem. fold (visitIntersection M gc perm numElements) elem) elems m"

definition computeFaceIntrinsicPermeabilities :: "Simulator \<Rightarrow> EclProblem \<Rightarrow> EclProblem" where
  "computeFaceIntrinsicPermeabilities sim p =
     (let numElements = length (leafElements (grid sim));
          M = loadMultipliers (eclipseState sim) numElements
      in p\<lparr>intersectionIntrinsicPermeability :=
              faceLoop M (globalCell (grid sim)) (intrinsicPermeability p) numElements
                (leafElements (grid sim)) (intersectionIntrinsicPermeability p)\<rparr>)"

section \<open>Rock and material parameters: \<^verbatim>\<open>readMaterialParameters_\<close>\<close>

text \<open>
  Every vector is resized to \<open>numDof\<close> and then written at every index
  \<open>dofIdx < numDof\<close>, so the vector after a loop is the list of the values the body
  computes for \<open>dofIdx = 0, ..., numDof - 1\<close>.
\<close>

definition readPermeability :: "EclipseState \<Rightarrow> nat list \<Rightarrow> nat \<Rightarrow> error + DimMatrix list" where
  "readPermeability es gc n =
     (case doubleGridProperty es ''PERMX'' of
        None \<Rightarrow>
          Inl (LogicError (''Can't read the intrinsic permeability from the eclipse state. '' @
                           ''(The PERM{X,Y,Z} keywords are missing)''))
      | Some permxData \<Rightarrow>
          let permyData = (case doubleGridProperty es ''PERMY'' of
                             Some d \<Rightarrow> d | None \<Rightarrow> permxData);
              permzData = (case doubleGridProperty es ''PERMZ'' of
                             Some d \<Rightarrow> d | None \<Rightarrow> permxData)
          in Inr (map (\<lambda>dofIdx.
                    let cartesianElemIdx = gc ! dofIdx;
                        K = zeroMatrix;
                        K = setEntry K 0 0 (permxData ! cartesianElemIdx);
                        K = setEntry K 1 1 (permyData ! cartesianElemIdx);
                        K = setEntry K 2 2 (permzData ! cartesianElemIdx)
                    in K) [0..<n]))"

text \<open>The NTG keyword scales the X and the Y permeability.\<close>

definition applyNtgToPermeability ::
  "EclipseState \<Rightarrow> nat list \<Rightarrow> nat \<Rightarrow> DimMatrix list \<Rightarrow> DimMatrix list" where
  "applyNtgToPermeability es gc n perm =
     (case doubleGridProperty es ''NTG'' of
        None \<Rightarrow> perm
      | Some ntgData \<Rightarrow>
          map (\<lambda>dofIdx.
                 let cartesianElemIdx = gc ! dofIdx;
                     K = perm ! dofIdx;
                     K = setEntry K 0 0 (K 0 0 * ntgData ! cartesianElemIdx);
                     K = setEntry K 1 1 (K 1 1 * ntgData ! cartesianElemIdx)
                 in K) [0..<n])"

definition readPorosity :: "EclipseState \<Rightarrow> nat list \<Rightarrow> nat \<Rightarrow> error + Scalar list" where
  "readPorosity es gc n =
     (case doubleGridProperty es ''PORO'' of
        None \<Rightarrow>
          Inl (LogicError (''Can't read the porosity from the eclipse state. '' @
                           ''(The PORO keyword is missing)''))
      | Some poroData \<Rightarrow>
          let por = map (\<lambda>dofIdx. poroData ! (gc ! dofIdx)) [0..<n];
              por = (case doubleGridProperty es ''NTG'' of
                       None \<Rightarrow> por
                     | Some ntgData \<Rightarrow>
                         map (\<lambda>dofIdx. por ! dofIdx * ntgData ! (gc ! dofIdx)) [0..<n]);
              por = (case doubleGridProperty es ''MULTPV'' of
                       None \<Rightarrow> por
                     | Some multpvData \<Rightarrow>
                         map (\<lambda>dofIdx. por ! dofIdx * multpvData ! (gc ! dofIdx)) [0..<n])
          in Inr por)"

text \<open>
  The material law of one saturation region, from table \<open>tableIdx\<close> of the SWOF and of the
  SGOF keyword. The gas saturations of the SGOF table become oil saturations.
\<close>

definition materialLawOfTables :: "SwofTable \<Rightarrow> SgofTable \<Rightarrow> MaterialLawParams" where
  "materialLawOfTables swofTable sgofTable =
     (let owParams = \<lparr>SwSamples = SwColumn swofTable,
                      KrwSamples = KrwColumn swofTable,
                      KrnSamples = KrowColumn swofTable,
                      PcnwSamples = PcowColumn swofTable\<rparr>;
          SoSamples = map (\<lambda>Sg. 1 - Sg) (SgColumn sgofTable);
          goParams = \<lparr>SwSamples = SoSamples,
                      KrwSamples = KrogColumn sgofTable,
                      KrnSamples = KrgColumn sgofTable,
                      PcnwSamples = PcogColumn sgofTable\<rparr>
      in \<lparr>oilWaterParams = owParams, gasOilParams = goParams\<rparr>)"

definition readFluidParameters :: "Deck \<Rightarrow> error + MaterialLawParams list" where
  "readFluidParameters d =
     (case getKeyword (swofKeyword d) ''SWOF'' of
        Inl e \<Rightarrow> Inl e
      | Inr swof \<Rightarrow>
     (case getKeyword (sgofKeyword d) ''SGOF'' of
        Inl e \<Rightarrow> Inl e
      | Inr sgof \<Rightarrow>
          if length swof \<noteq> length sgof then
            Inl (AssertionFailed
                  ''Opm::SwofTable::numTables(swofKeyword) == Opm::SgofTable::numTables(sgofKeyword)'')
          else
            let numSatfuncTables = length swof
            in Inr (map (\<lambda>tableIdx. materialLawOfTables (swof ! tableIdx) (sgof ! tableIdx))
                      [0..<numSatfuncTables])))"

text \<open>
  The body of the SATNUM loop. The two assertions read \<^verbatim>\<open>satnumData[dofIdx]\<close>; the value
  that is stored comes from \<^verbatim>\<open>satnumData[cartesianElemIdx]\<close>.
\<close>

definition satnumBody :: "nat list \<Rightarrow> int list \<Rightarrow> nat \<Rightarrow> nat \<Rightarrow> error + nat" where
  "satnumBody gc satnumData numSatfuncTables dofIdx =
     (let cartesianElemIdx = gc ! dofIdx
      in if \<not> 1 \<le> satnumData ! dofIdx then
           Inl (AssertionFailed ''1 <= satnumData[dofIdx]'')
         else if \<not> satnumData ! dofIdx \<le> int numSatfuncTables then
           Inl (AssertionFailed ''satnumData[dofIdx] <= static_cast<int>(numSatfuncTables)'')
         else Inr (nat ((satnumData ! cartesianElemIdx - 1) mod 2 ^ 16)))"

definition readSatnum :: "EclipseState \<Rightarrow> nat list \<Rightarrow> nat \<Rightarrow> nat \<Rightarrow> error + nat list" where
  "readSatnum es gc n numSatfuncTables =
     (case intGridProperty es ''SATNUM'' of
        Some satnumData \<Rightarrow> forEachDof (satnumBody gc satnumData numSatfuncTables) [0..<n]
      | None \<Rightarrow> Inr [])"

definition readMaterialParameters :: "Simulator \<Rightarrow> EclProblem \<Rightarrow> error + EclProblem" where
  "readMaterialParameters sim p =
     (let es = eclipseState sim;
          gc = globalCell (grid sim);
          n = numDof sim
      in (case readPermeability es gc n of
            Inl e \<Rightarrow> Inl e
          | Inr perm \<Rightarrow>
              (let p1 = p\<lparr>intrinsicPermeability := applyNtgToPermeability es gc n perm\<rparr>;
                   p2 = computeFaceIntrinsicPermeabilities sim p1
               in (case readPorosity es gc n of
                     Inl e \<Rightarrow> Inl e
                   | Inr por \<Rightarrow>
                       (case readFluidParameters (deck sim) of
                          Inl e \<Rightarrow> Inl e
                        | Inr params \<Rightarrow>
                            (case readSatnum es gc n (length params) of
                               Inl e \<Rightarrow> Inl e
                             | Inr idx \<Rightarrow>
                                 Inr (p2\<lparr>porosity := por,
                                         materialParams := params,
                                         materialParamTableIdx := idx\<rparr>)))))))"

text \<open>
  \<^verbatim>\<open>materialLawParams\<close>: the table index of a cell, and the parameters found there.
\<close>

definition materialLawTableIdx :: "EclProblem \<Rightarrow> nat \<Rightarrow> nat" where
  "materialLawTableIdx p globalSpaceIdx =
     (if length (materialParamTableIdx p) > 0 then materialParamTableIdx p ! globalSpaceIdx
      else 0)"

definition materialLawParams :: "EclProblem \<Rightarrow> nat \<Rightarrow> MaterialLawParams" where
  "materialLawParams p globalSpaceIdx = materialParams p ! materialLawTableIdx p globalSpaceIdx"

section \<open>Initial condition: \<^verbatim>\<open>readInitialCondition_\<close>\<close>

text \<open>
  The body of the loop over the cells, after the two assertions: the setters are applied
  to the state \<open>dofFluidState\<close> in the order of the source. The oil saturation
  \<^verbatim>\<open>1 - waterSaturationData[i] - gasSaturationData[i]\<close> is two subtractions of doubles, from
  left to right.
\<close>

definition initialFluidState ::
  "FluidSystem \<Rightarrow> Scalar \<Rightarrow> Scalar list \<Rightarrow> Scalar list \<Rightarrow> Scalar list \<Rightarrow> nat \<Rightarrow>
   BlackOilFluidState \<Rightarrow> BlackOilFluidState" where
  "initialFluidState FS T waterSaturationData gasSaturationData pressureData cartesianDofIdx
     dofFluidState =
     (let fs = setTemperature T dofFluidState;
          fs = setSaturation waterPhaseIdx (waterSaturationData ! cartesianDofIdx) fs;
          fs = setSaturation gasPhaseIdx (gasSaturationData ! cartesianDofIdx) fs;
          fs = setSaturation oilPhaseIdx
                 (doubleMinus (doubleMinus 1 (waterSaturationData ! cartesianDofIdx))
                    (gasSaturationData ! cartesianDofIdx)) fs;
          oilPressure = pressureData ! cartesianDofIdx;
          fs = fold (\<lambda>phaseIdx. setPressure phaseIdx oilPressure) allPhases fs;
          fs = fold (\<lambda>phaseIdx. fold (\<lambda>compIdx. setMoleFraction phaseIdx compIdx 0)
                                   allComponents) allPhases fs;
          fs = setMoleFraction waterPhaseIdx waterCompIdx 1 fs;
          fs = setMoleFraction gasPhaseIdx gasCompIdx 1 fs;
          Bo = oilFormationVolumeFactor FS oilPressure;
          Rs = gasDissolutionFactor FS oilPressure;
          rhoo = surfaceDensity FS oilPhaseIdx / Bo;
          rhogref = surfaceDensity FS gasPhaseIdx;
          XoG = Rs * rhogref / rhoo;
          MG = molarMass FS gasCompIdx;
          MO = molarMass FS oilCompIdx;
          xoG = XoG * MO / ((MO - MG) * XoG + MG);
          xoO = 1 - xoG;
          fs = setMoleFraction oilPhaseIdx gasCompIdx xoG fs;
          fs = setMoleFraction oilPhaseIdx oilCompIdx xoO fs
      in fs)"

definition initialConditionBody ::
  "FluidSystem \<Rightarrow> Scalar \<Rightarrow> nat list \<Rightarrow> nat \<Rightarrow> Scalar list \<Rightarrow> Scalar list \<Rightarrow> Scalar list \<Rightarrow>
   BlackOilFluidState \<Rightarrow> nat \<Rightarrow> error + BlackOilFluidState" where
  "initialConditionBody FS T gc numCartesianCells waterSaturationData gasSaturationData
     pressureData dofFluidState dofIdx =
     (let cartesianDofIdx = gc ! dofIdx
      in if \<not> cartesianDofIdx \<le> numCartesianCells then
           Inl (AssertionFailed ''cartesianDofIdx <= numCartesianCells'')
         else Inr (initialFluidState FS T waterSaturationData gasSaturationData pressureData
                     cartesianDofIdx dofFluidState))"

text \<open>
  \<open>fs0\<close> is the default-constructed fluid state that \<^verbatim>\<open>resize\<close> puts into the vector.
  The exceptions leave the constructor of the problem, so no problem object exists after
  a failure: the result is then the error alone.
\<close>

definition readInitialCondition ::
  "FluidSystem \<Rightarrow> BlackOilFluidState \<Rightarrow> Simulator \<Rightarrow> EclProblem \<Rightarrow> error + EclProblem" where
  "readInitialCondition FS fs0 sim p =
     (let d = deck sim;
          g = grid sim;
          n = numDof sim;
          numCartesianCells = (case logicalCartesianSize g of (nx, ny, nz) \<Rightarrow> nx * ny * nz)
      in if \<not> hasKeyword d ''SWAT'' \<or> \<not> hasKeyword d ''SGAS'' then
           Inl (RuntimeError (''So far, the Eclipse input file requires the presence of the SWAT '' @
                              ''and SGAS keywords''))
         else if \<not> hasKeyword d ''PRESSURE'' then
           Inl (RuntimeError (''So far, the Eclipse input file requires the presence of the PRESSURE '' @
                              ''keyword''))
         else
     (case getKeyword (siDoubleData d ''SWAT'') ''SWAT'' of
        Inl e \<Rightarrow> Inl e
      | Inr waterSaturationData \<Rightarrow>
     (case getKeyword (siDoubleData d ''SGAS'') ''SGAS'' of
        Inl e \<Rightarrow> Inl e
      | Inr gasSaturationData \<Rightarrow>
     (case getKeyword (siDoubleData d ''PRESSURE'') ''PRESSURE'' of
        Inl e \<Rightarrow> Inl e
      | Inr pressureData \<Rightarrow>
     (case getKeyword (siDoubleData d ''RS'') ''RS'' of
        Inl e \<Rightarrow> Inl e
      | Inr rsData \<Rightarrow>
          if length waterSaturationData \<noteq> numCartesianCells then
            Inl (AssertionFailed ''waterSaturationData.size() == numCartesianCells'')
          else if length gasSaturationData \<noteq> numCartesianCells then
            Inl (AssertionFailed ''gasSaturationData.size() == numCartesianCells'')
          else if length pressureData \<noteq> numCartesianCells then
            Inl (AssertionFailed ''pressureData.size() == numCartesianCells'')
          else if length rsData \<noteq> numCartesianCells then
            Inl (AssertionFailed ''rsData.size() == numCartesianCells'')
          else
            (case forEachDof
                    (initialConditionBody FS (temperature p) (globalCell g) numCartesianCells
                       waterSaturationData gasSaturationData pressureData fs0) [0..<n] of
               Inl e \<Rightarrow> Inl e
             | Inr states \<Rightarrow> Inr (p\<lparr>initialFluidStates := states\<rparr>)))))))"

section \<open>Notions used by the statements\<close>

text \<open>
  The keys of the interior intersections of a list of intersections: the set the face map
  is compared with.
\<close>

definition faceKeys :: "nat \<Rightarrow> Intersection list \<Rightarrow> nat set" where
  "faceKeys N its =
     (\<lambda>it. intersectIdx N (inside it) (outside it)) ` {it \<in> set its. neighbor it}"

text \<open>
  The text an error carries: the message of an exception, the expression of a failed
  assertion, and for a keyword the deck does not hold the name of the keyword.
\<close>

primrec errorMessage :: "error \<Rightarrow> string" where
  "errorMessage (LogicError msg) = msg"
| "errorMessage (RuntimeError msg) = msg"
| "errorMessage (KeywordNotFound name) = name"
| "errorMessage (AssertionFailed msg) = msg"

section \<open>Two small decks\<close>

text \<open>
  The scenario of the specification: a \<open>2 \<times> 2 \<times> 1\<close> grid with all cells active, cell
  \<open>i + 2 * j\<close> at column \<open>i\<close> and row \<open>j\<close>, uniform permeability 100 and porosity 0.2, no
  multipliers, one saturation region, water saturation 0.3, gas saturation 0.2, pressure
  \<open>2e7\<close> and \<open>Rs = 50\<close>. Every element lists its six faces; the faces on the boundary have
  no neighbour. A decimal of the deck that is not a double itself is read as the nearest
  double.
\<close>

definition boundaryFace :: "nat \<Rightarrow> int \<Rightarrow> Intersection" where
  "boundaryFace e f = \<lparr>neighbor = False, inside = e, outside = e, indexInInside = f\<rparr>"

definition interiorFace :: "nat \<Rightarrow> nat \<Rightarrow> int \<Rightarrow> Intersection" where
  "interiorFace e e' f = \<lparr>neighbor = True, inside = e, outside = e', indexInInside = f\<rparr>"

definition exampleGrid :: Grid where
  "exampleGrid =
     \<lparr>globalCell = [0, 1, 2, 3],
      logicalCartesianSize = (2, 2, 1),
      leafElements =
        [[boundaryFace 0 0, interiorFace 0 1 1, boundaryFace 0 2, interiorFace 0 2 3,
          boundaryFace 0 4, boundaryFace 0 5],
         [interiorFace 1 0 0, boundaryFace 1 1, boundaryFace 1 2, interiorFace 1 3 3,
          boundaryFace 1 4, boundaryFace 1 5],
         [boundaryFace 2 0, interiorFace 2 3 1, interiorFace 2 0 2, boundaryFace 2 3,
          boundaryFace 2 4, boundaryFace 2 5],
         [interiorFace 3 2 0, boundaryFace 3 1, interiorFace 3 1 2, boundaryFace 3 3,
          boundaryFace 3 4, boundaryFace 3 5]]\<rparr>"

definition exampleSwof :: SwofTable where
  "exampleSwof =
     \<lparr>SwColumn = [0.25, 1], KrwColumn = [0, 1], KrowColumn = [1, 0], PcowColumn = [0, 0]\<rparr>"

definition exampleSgof :: SgofTable where
  "exampleSgof =
     \<lparr>SgColumn = [0, 0.25], KrgColumn = [0, 1], KrogColumn = [1, 0], PcogColumn = [0, 0]\<rparr>"

definition exampleDeck :: Deck where
  "exampleDeck =
     \<lparr>siDoubleData =
        [''SWAT'' \<mapsto> replicate 4 (roundToDouble 0.3), ''SGAS'' \<mapsto> replicate 4 (roundToDouble 0.2),
         ''PRESSURE'' \<mapsto> [20000000, 20000000, 20000000, 20000000],
         ''RS'' \<mapsto> [50, 50, 50, 50]],
      swofKeyword = Some [exampleSwof],
      sgofKeyword = Some [exampleSgof]\<rparr>"

definition exampleEclipseState :: EclipseState where
  "exampleEclipseState =
     \<lparr>doubleGridProperty =
        [''PERMX'' \<mapsto> [100, 100, 100, 100], ''PERMY'' \<mapsto> [100, 100, 100, 100],
         ''PERMZ'' \<mapsto> [100, 100, 100, 100], ''PORO'' \<mapsto> replicate 4 (roundToDouble 0.2)],
      intGridProperty = Map.empty\<rparr>"

definition exampleSim :: Simulator where
  "exampleSim =
     \<lparr>deck = exampleDeck, eclipseState = exampleEclipseState, grid = exampleGrid, numDof = 4\<rparr>"

text \<open>
  A \<open>3 \<times> 1 \<times> 1\<close> grid whose first cell is inactive: the two active cells 0 and 1 are the
  logical cells 1 and 2. The deck has no PERMY, a net-to-gross array, the two X multipliers
  and a saturation region for every logical cell.
\<close>

definition inactiveGrid :: Grid where
  "inactiveGrid =
     \<lparr>globalCell = [1, 2],
      logicalCartesianSize = (3, 1, 1),
      leafElements =
        [[boundaryFace 0 0, interiorFace 0 1 1, boundaryFace 0 2, boundaryFace 0 3,
          boundaryFace 0 4, boundaryFace 0 5],
         [interiorFace 1 0 0, boundaryFace 1 1, boundaryFace 1 2, boundaryFace 1 3,
          boundaryFace 1 4, boundaryFace 1 5]]\<rparr>"

definition inactiveDeck :: Deck where
  "inactiveDeck =
     \<lparr>siDoubleData =
        [''SWAT'' \<mapsto> [0.125, 0.25, 0.5], ''SGAS'' \<mapsto> [0.125, 0.25, 0.75],
         ''PRESSURE'' \<mapsto> [100, 200, 300], ''RS'' \<mapsto> [50, 50, 50]],
      swofKeyword = Some [exampleSwof, exampleSwof],
      sgofKeyword = Some [exampleSgof, exampleSgof]\<rparr>"

definition inactiveEclipseState :: "int list \<Rightarrow> EclipseState" where
  "inactiveEclipseState satnum =
     \<lparr>doubleGridProperty =
        [''PERMX'' \<mapsto> [50, 100, 200], ''PERMZ'' \<mapsto> [5, 10, 20], ''PORO'' \<mapsto> [0.125, 0.25, 0.5],
         ''NTG'' \<mapsto> [1, 0.5, 0.25], ''MULTX'' \<mapsto> [1, 2, 1], ''MULTX-'' \<mapsto> [1, 1, 4]],
      intGridProperty = [''SATNUM'' \<mapsto> satnum]\<rparr>"

definition inactiveSim :: "int list \<Rightarrow> Simulator" where
  "inactiveSim satnum =
     \<lparr>deck = inactiveDeck, eclipseState = inactiveEclipseState satnum, grid = inactiveGrid,
      numDof = 2\<rparr>"

definition exampleFluidSystem :: FluidSystem where
  "exampleFluidSystem =
     \<lparr>oilFormationVolumeFactor = (\<lambda>p. 2),
      gasDissolutionFactor = (\<lambda>p. 50),
      surfaceDensity = (\<lambda>phaseIdx. case phaseIdx of
                          waterPhaseIdx \<Rightarrow> 1000 | oilPhaseIdx \<Rightarrow> 800 | gasPhaseIdx \<Rightarrow> 1),
      molarMass = (\<lambda>compIdx. case compIdx of
                     waterCompIdx \<Rightarrow> 18 | oilCompIdx \<Rightarrow> 175 | gasCompIdx \<Rightarrow> 40)\<rparr>"

definition exampleFluidState :: BlackOilFluidState where
  "exampleFluidState =
     \<lparr>fsTemperature = 0, fsSaturation = (\<lambda>phaseIdx. 7), fsPressure = (\<lambda>phaseIdx. 7),
      fsMoleFraction = (\<lambda>phaseIdx compIdx. 7)\<rparr>"

text \<open>A problem whose two cells have the diagonal permeabilities (50, 50, 10) and (50, 50, 20).\<close>

definition exampleProblem :: EclProblem where
  "exampleProblem =
     (newProblem 293.15)\<lparr>intrinsicPermeability :=
        [setEntry (setEntry (setEntry zeroMatrix 0 0 50) 1 1 50) 2 2 10,
         setEntry (setEntry (setEntry zeroMatrix 0 0 50) 1 1 50) 2 2 20]\<rparr>"

text \<open>The deck of the second grid with one SGOF table less than SWOF tables.\<close>

definition mismatchSim :: Simulator where
  "mismatchSim = (inactiveSim [1, 1, 2])\<lparr>deck := inactiveDeck\<lparr>sgofKeyword := Some [exampleSgof]\<rparr>\<rparr>"

text \<open>The scenario with the water saturation 0.01 and the gas saturation 0.06.\<close>

definition roundingSim :: Simulator where
  "roundingSim =
     exampleSim\<lparr>deck := exampleDeck\<lparr>siDoubleData :=
       (siDoubleData exampleDeck)(''SWAT'' \<mapsto> replicate 4 (roundToDouble 0.01),
                                  ''SGAS'' \<mapsto> replicate 4 (roundToDouble 0.06))\<rparr>\<rparr>"

text \<open>The deck of the specification's scenario without one of its keywords.\<close>

definition missingSim :: "string \<Rightarrow> Simulator" where
  "missingSim name =
     exampleSim\<lparr>deck := exampleDeck\<lparr>siDoubleData := (siDoubleData exampleDeck)(name := None)\<rparr>\<rparr>"

section \<open>The face map holds one entry for every interface\<close>

lemmas inactive_defs =
  inactiveSim_def inactiveGrid_def inactiveDeck_def inactiveEclipseState_def
  boundaryFace_def interiorFace_def newProblem_def

lemma Collect_set_filter: "{x \<in> set xs. P x} = set (filter P xs)"
  by auto

lemma intersectIdx_commute: "intersectIdx N a b = intersectIdx N b a"
  by (simp add: intersectIdx_def min.commute max.commute)

lemma intersectIdx_min_max: "intersectIdx N a b = min a b * N + max a b"
  by (simp add: intersectIdx_def)

lemma mult_add_inj:
  fixes N :: nat
  assumes "r < N" "r' < N" "q * N + r = q' * N + r'"
  shows "q = q' \<and> r = r'"
proof -
  have "(q * N + r) div N = (q' * N + r') div N" using assms(3) by simp
  then have "q = q'" using assms(1,2) by simp
  then show ?thesis using assms(3) by simp
qed

lemma intersectIdx_inj:
  assumes "a < N" "b < N" "c < N" "d < N"
  shows "intersectIdx N a b = intersectIdx N c d \<longleftrightarrow> {a, b} = {c, d}"
proof
  assume "intersectIdx N a b = intersectIdx N c d"
  then have "min a b * N + max a b = min c d * N + max c d"
    by (simp add: intersectIdx_min_max)
  moreover have "max a b < N" "max c d < N" using assms by simp_all
  ultimately have "min a b = min c d \<and> max a b = max c d"
    using mult_add_inj by blast
  then show "{a, b} = {c, d}"
    by (auto simp: min_def max_def split: if_splits)
next
  assume "{a, b} = {c, d}"
  then have "(a = c \<and> b = d) \<or> (a = d \<and> b = c)" by (auto simp: doubleton_eq_iff)
  then show "intersectIdx N a b = intersectIdx N c d"
    using intersectIdx_commute by auto
qed

lemma dom_visitIntersection:
  "dom (visitIntersection M gc perm N it m) =
     dom m \<union> (if neighbor it then {intersectIdx N (inside it) (outside it)} else {})"
  by (auto simp: visitIntersection_def Let_def split: if_splits)

lemma dom_fold_visit:
  "dom (fold (visitIntersection M gc perm N) its m) = dom m \<union> faceKeys N its"
proof (induction its arbitrary: m)
  case Nil
  then show ?case by (simp add: faceKeys_def)
next
  case (Cons it its)
  have "faceKeys N (it # its) =
          (if neighbor it then {intersectIdx N (inside it) (outside it)} else {}) \<union> faceKeys N its"
    by (auto simp: faceKeys_def)
  then show ?case using Cons.IH dom_visitIntersection by (simp add: Un_assoc)
qed

lemma faceLoop_concat:
  "faceLoop M gc perm N elems m = fold (visitIntersection M gc perm N) (concat elems) m"
  unfolding faceLoop_def by (induction elems arbitrary: m) simp_all

lemma faceKeys_min_max:
  "faceKeys N its =
     (\<lambda>it. min (inside it) (outside it) * N + max (inside it) (outside it)) ` {it \<in> set its. neighbor it}"
  by (simp add: faceKeys_def intersectIdx_min_max)

lemma card_faceKeys:
  assumes "\<forall>it \<in> set its. neighbor it \<longrightarrow> inside it < N \<and> outside it < N"
  shows "card (faceKeys N its) = card ((\<lambda>it. {inside it, outside it}) ` {it \<in> set its. neighbor it})"
proof -
  let ?S = "{it \<in> set its. neighbor it}"
  let ?h = "\<lambda>it. {inside it, outside it}"
  let ?g = "\<lambda>P::nat set. Min P * N + Max P"
  have "faceKeys N its = ?g ` (?h ` ?S)"
    unfolding faceKeys_def image_image by (simp add: intersectIdx_min_max)
  moreover have "inj_on ?g (?h ` ?S)"
  proof (rule inj_onI)
    fix P Q assume "P \<in> ?h ` ?S" "Q \<in> ?h ` ?S" and eq: "?g P = ?g Q"
    then obtain x y where x: "x \<in> ?S" "P = ?h x" and y: "y \<in> ?S" "Q = ?h y" by blast
    have "intersectIdx N (inside x) (outside x) = intersectIdx N (inside y) (outside y)"
      using eq x y by (simp add: intersectIdx_min_max)
    moreover have "inside x < N" "outside x < N" "inside y < N" "outside y < N"
      using assms x y by auto
    ultimately show "P = Q" using intersectIdx_inj x y by blast
  qed
  ultimately show ?thesis by (simp add: card_image)
qed

lemma visit_present:
  "neighbor it \<Longrightarrow> intersectIdx N (outside it) (inside it) \<in> dom m \<Longrightarrow>
   visitIntersection M gc perm N it m = m"
  using intersectIdx_commute [of N "inside it" "outside it"]
  by (auto simp: visitIntersection_def Let_def)

lemma dom_computeFace:
  "dom (intersectionIntrinsicPermeability (computeFaceIntrinsicPermeabilities sim p)) =
     dom (intersectionIntrinsicPermeability p) \<union>
     faceKeys (length (leafElements (grid sim))) (concat (leafElements (grid sim)))"
  by (simp add: computeFaceIntrinsicPermeabilities_def Let_def faceLoop_concat dom_fold_visit)

lemma faceKeys_cong: "set its = set its' \<Longrightarrow> faceKeys N its = faceKeys N its'"
  by (simp add: faceKeys_def)

text \<open>
  C1. The face map of a freshly constructed problem holds, after
  \<^verbatim>\<open>computeFaceIntrinsicPermeabilities_\<close>, exactly the keys
  \<open>min a b * numElements + max a b\<close> of the interior intersections of the grid view, and
  as many entries as there are unordered pairs \<open>{a, b}\<close> of adjacent cells (the element
  indices being below \<open>numElements\<close>). The key does not depend on the side from which the
  interface is seen, a visit from the other side of a stored interface leaves the map as
  it is, and the set of keys is the same for every order in which the intersections are
  enumerated.
\<close>

theorem C1_one_entry_per_interface:
  assumes empty: "intersectionIntrinsicPermeability p = Map.empty"
    and bounds: "\<forall>it \<in> set (concat (leafElements (grid sim))). neighbor it \<longrightarrow>
                   inside it < length (leafElements (grid sim)) \<and>
                   outside it < length (leafElements (grid sim))"
  shows
    "dom (intersectionIntrinsicPermeability (computeFaceIntrinsicPermeabilities sim p)) =
       (\<lambda>it. min (inside it) (outside it) * length (leafElements (grid sim))
              + max (inside it) (outside it)) `
         {it \<in> set (concat (leafElements (grid sim))). neighbor it}
     \<and> card (dom (intersectionIntrinsicPermeability (computeFaceIntrinsicPermeabilities sim p))) =
         card ((\<lambda>it. {inside it, outside it}) `
                 {it \<in> set (concat (leafElements (grid sim))). neighbor it})
     \<and> (\<forall>N a b. intersectIdx N a b = intersectIdx N b a)
     \<and> (\<forall>M gc perm N it m.
           neighbor it \<and> intersectIdx N (outside it) (inside it) \<in> dom m \<longrightarrow>
           visitIntersection M gc perm N it m = m)
     \<and> (\<forall>sim'.
           length (leafElements (grid sim')) = length (leafElements (grid sim)) \<and>
           set (concat (leafElements (grid sim'))) = set (concat (leafElements (grid sim))) \<longrightarrow>
           dom (intersectionIntrinsicPermeability (computeFaceIntrinsicPermeabilities sim' p)) =
           dom (intersectionIntrinsicPermeability (computeFaceIntrinsicPermeabilities sim p)))"
proof (intro conjI allI impI)
  let ?N = "length (leafElements (grid sim))"
  let ?its = "concat (leafElements (grid sim))"
  have d: "dom (intersectionIntrinsicPermeability (computeFaceIntrinsicPermeabilities sim p)) =
             faceKeys ?N ?its"
    using empty by (simp add: dom_computeFace)
  show "dom (intersectionIntrinsicPermeability (computeFaceIntrinsicPermeabilities sim p)) =
       (\<lambda>it. min (inside it) (outside it) * ?N + max (inside it) (outside it)) `
         {it \<in> set ?its. neighbor it}"
    using d by (simp add: faceKeys_min_max)
  show "card (dom (intersectionIntrinsicPermeability (computeFaceIntrinsicPermeabilities sim p))) =
         card ((\<lambda>it. {inside it, outside it}) ` {it \<in> set ?its. neighbor it})"
    using d card_faceKeys [OF bounds] by simp
  show "intersectIdx N a b = intersectIdx N b a" for N a b
    by (rule intersectIdx_commute)
  show "visitIntersection M gc perm N it m = m"
    if "neighbor it \<and> intersectIdx N (outside it) (inside it) \<in> dom m" for M gc perm N it m
    using that visit_present by blast
  show "dom (intersectionIntrinsicPermeability (computeFaceIntrinsicPermeabilities sim' p)) =
        dom (intersectionIntrinsicPermeability (computeFaceIntrinsicPermeabilities sim p))"
    if "length (leafElements (grid sim')) = ?N \<and>
        set (concat (leafElements (grid sim'))) = set ?its" for sim'
  proof -
    have "faceKeys (length (leafElements (grid sim'))) (concat (leafElements (grid sim'))) =
          faceKeys ?N ?its"
      using that faceKeys_cong [of "concat (leafElements (grid sim'))" ?its ?N] by simp
    then show ?thesis using d empty by (simp add: dom_computeFace)
  qed
qed


theorem C1_one_entry_per_interface_witness:
  "dom (intersectionIntrinsicPermeability
          (computeFaceIntrinsicPermeabilities (inactiveSim [1, 1, 2]) (newProblem 293.15))) = {1}
   \<and> card (dom (intersectionIntrinsicPermeability
          (computeFaceIntrinsicPermeabilities (inactiveSim [1, 1, 2]) (newProblem 293.15)))) = 1
   \<and> intersectIdx 2 1 0 = intersectIdx 2 0 1
   \<and> visitIntersection (loadMultipliers (inactiveEclipseState [1, 1, 2]) 2) [1, 2] [] 2
         (interiorFace 1 0 0) [1 \<mapsto> zeroMatrix] = [1 \<mapsto> zeroMatrix]"
proof -
  have e: "intersectionIntrinsicPermeability (newProblem 293.15) = Map.empty"
    by (simp add: newProblem_def)
  have g: "leafElements (grid (inactiveSim [1, 1, 2])) = leafElements inactiveGrid"
    by (simp add: inactiveSim_def)
  have n: "length (leafElements inactiveGrid) = 2" by (simp add: inactiveGrid_def)
  have s: "{it \<in> set (concat (leafElements inactiveGrid)). neighbor it} =
           {interiorFace 0 1 1, interiorFace 1 0 0}"
    unfolding Collect_set_filter by (simp add: inactiveGrid_def boundaryFace_def interiorFace_def)
  have b: "\<forall>it \<in> set (concat (leafElements (grid (inactiveSim [1, 1, 2])))). neighbor it \<longrightarrow>
             inside it < length (leafElements (grid (inactiveSim [1, 1, 2]))) \<and>
             outside it < length (leafElements (grid (inactiveSim [1, 1, 2])))"
    unfolding g n by (simp add: inactiveGrid_def boundaryFace_def interiorFace_def)
  note C = C1_one_entry_per_interface [OF e b]
  have 1: "dom (intersectionIntrinsicPermeability
          (computeFaceIntrinsicPermeabilities (inactiveSim [1, 1, 2]) (newProblem 293.15))) = {1}"
    using C[THEN conjunct1] unfolding g s n by (simp add: interiorFace_def)
  have 2: "card (dom (intersectionIntrinsicPermeability
          (computeFaceIntrinsicPermeabilities (inactiveSim [1, 1, 2]) (newProblem 293.15)))) = 1"
    using 1 by simp
  have 3: "intersectIdx 2 1 0 = intersectIdx 2 0 1"
    using C by blast
  have k: "intersectIdx 2 (outside (interiorFace 1 0 0)) (inside (interiorFace 1 0 0)) = 1"
    by (simp add: interiorFace_def intersectIdx_def)
  have "neighbor (interiorFace 1 0 0) \<and>
        intersectIdx 2 (outside (interiorFace 1 0 0)) (inside (interiorFace 1 0 0))
          \<in> dom [1 \<mapsto> zeroMatrix]"
    unfolding k by (simp add: interiorFace_def)
  then have 4: "visitIntersection (loadMultipliers (inactiveEclipseState [1, 1, 2]) 2) [1, 2] [] 2
         (interiorFace 1 0 0) [1 \<mapsto> zeroMatrix] = [1 \<mapsto> zeroMatrix]"
    using C by blast
  show ?thesis using 1 2 3 4 by blast
qed

section \<open>The stored face tensors\<close>

lemma visit_keeps:
  "m k = Some K \<Longrightarrow> visitIntersection M gc perm N it m k = Some K"
  by (auto simp: visitIntersection_def Let_def)

lemma visit_new:
  "visitIntersection M gc perm N it m k = Some K \<Longrightarrow>
   m k = Some K \<or>
   (neighbor it \<and> k = intersectIdx N (inside it) (outside it) \<and> K = faceTensor M gc perm it)"
  by (auto simp: visitIntersection_def Let_def split: if_splits)

lemma fold_visit_keeps:
  "m k = Some K \<Longrightarrow> fold (visitIntersection M gc perm N) its m k = Some K"
  by (induction its arbitrary: m) (simp_all add: visit_keeps)

lemma fold_visit_new:
  "fold (visitIntersection M gc perm N) its m k = Some K \<Longrightarrow>
   m k = Some K \<or>
   (\<exists>it \<in> set its. neighbor it \<and> k = intersectIdx N (inside it) (outside it) \<and>
      K = faceTensor M gc perm it)"
proof (induction its arbitrary: m)
  case Nil
  then show ?case by simp
next
  case (Cons it its)
  from Cons.prems have "fold (visitIntersection M gc perm N) its (visitIntersection M gc perm N it m) k = Some K"
    by simp
  from Cons.IH [OF this] show ?case
    using visit_new [of M gc perm N it m k K] by auto
qed

lemma harmonicAverage_commute: "harmonicAverage a b = harmonicAverage b a"
  by (simp add: harmonicAverage_def add.commute mult.commute mult.left_commute disj_commute)

lemma harmonicAverage_zero: "harmonicAverage a 0 = 0"
  by (simp add: harmonicAverage_def)

lemma harmonicAverage_formula:
  "a + b \<noteq> 0 \<Longrightarrow> harmonicAverage a b = 2 * a * b / (a + b)"
  by (simp add: harmonicAverage_def)

lemma applyMultipliers_scales:
  "\<exists>s1 s2. applyMultipliers M f ci ce K1 K2 = (scaleMatrix K1 s1, scaleMatrix K2 s2)"
proof -
  have one: "(K1, K2) = (scaleMatrix K1 1, scaleMatrix K2 1)"
    by (simp add: scaleMatrix_def)
  consider "f = 1" | "f = 0" | "f = 3" | "f = 2" | "f = 5" | "f = 4"
    | "f \<noteq> 1 \<and> f \<noteq> 0 \<and> f \<noteq> 3 \<and> f \<noteq> 2 \<and> f \<noteq> 5 \<and> f \<noteq> 4"
    by blast
  then show ?thesis
  proof cases
    case 7
    then have "applyMultipliers M f ci ce K1 K2 = (K1, K2)"
      by (simp add: applyMultipliers_def)
    then show ?thesis using one by metis
  qed (simp add: applyMultipliers_def; blast)+
qed

lemma faceTensor_entries:
  assumes "scaledPermeabilities M gc perm it = (K1, K2)" "i < dimWorld" "j < dimWorld"
  shows "faceTensor M gc perm it i j = harmonicAverage (K1 i j) (K2 i j)"
  using assms by (simp add: faceTensor_def harmonicAverageMatrix_def)

text \<open>
  C2. Every tensor that \<^verbatim>\<open>computeFaceIntrinsicPermeabilities_\<close> stores in the face map
  of a freshly constructed problem comes from an interior intersection with that key: each
  of its components is the harmonic average of the components of the two cell tensors
  after the multipliers, which is \<open>2 * K1 * K2 / (K1 + K2)\<close> where the sum is not zero and
  zero where one of the two components is zero. The harmonic average is symmetric, and
  the average of any value with zero is zero.
\<close>

theorem C2_harmonic_average:
  assumes empty: "intersectionIntrinsicPermeability p = Map.empty"
    and stored: "intersectionIntrinsicPermeability (computeFaceIntrinsicPermeabilities sim p) k = Some K"
  shows
    "(\<exists>it K1 K2 s1 s2.
        it \<in> set (concat (leafElements (grid sim))) \<and> neighbor it \<and>
        k = intersectIdx (length (leafElements (grid sim))) (inside it) (outside it) \<and>
        scaledPermeabilities
          (loadMultipliers (eclipseState sim) (length (leafElements (grid sim))))
          (globalCell (grid sim)) (intrinsicPermeability p) it = (K1, K2) \<and>
        K1 = scaleMatrix (intrinsicPermeability p ! inside it) s1 \<and>
        K2 = scaleMatrix (intrinsicPermeability p ! outside it) s2 \<and>
        (\<forall>i j. i < dimWorld \<and> j < dimWorld \<longrightarrow>
           K i j = harmonicAverage (K1 i j) (K2 i j) \<and>
           (K1 i j + K2 i j \<noteq> 0 \<longrightarrow> K i j = 2 * K1 i j * K2 i j / (K1 i j + K2 i j)) \<and>
           (K1 i j = 0 \<or> K2 i j = 0 \<longrightarrow> K i j = 0)))
     \<and> (\<forall>a b. harmonicAverage a b = harmonicAverage b a)
     \<and> (\<forall>a. harmonicAverage a 0 = 0)"
proof (intro conjI allI)
  let ?N = "length (leafElements (grid sim))"
  let ?M = "loadMultipliers (eclipseState sim) ?N"
  let ?gc = "globalCell (grid sim)"
  let ?perm = "intrinsicPermeability p"
  from stored have "fold (visitIntersection ?M ?gc ?perm ?N) (concat (leafElements (grid sim)))
                      (intersectionIntrinsicPermeability p) k = Some K"
    by (simp add: computeFaceIntrinsicPermeabilities_def Let_def faceLoop_concat)
  from fold_visit_new [OF this] empty
  obtain it where it: "it \<in> set (concat (leafElements (grid sim)))" "neighbor it"
      "k = intersectIdx ?N (inside it) (outside it)" "K = faceTensor ?M ?gc ?perm it"
    by auto
  obtain s1 s2 where s: "scaledPermeabilities ?M ?gc ?perm it =
      (scaleMatrix (?perm ! inside it) s1, scaleMatrix (?perm ! outside it) s2)"
    unfolding scaledPermeabilities_def Let_def using applyMultipliers_scales by blast
  let ?K1 = "scaleMatrix (?perm ! inside it) s1" and ?K2 = "scaleMatrix (?perm ! outside it) s2"
  have e: "K i j = harmonicAverage (?K1 i j) (?K2 i j)" if "i < dimWorld \<and> j < dimWorld" for i j
    using faceTensor_entries [OF s] that it(4) by simp
  have "\<forall>i j. i < dimWorld \<and> j < dimWorld \<longrightarrow>
           K i j = harmonicAverage (?K1 i j) (?K2 i j) \<and>
           (?K1 i j + ?K2 i j \<noteq> 0 \<longrightarrow> K i j = 2 * ?K1 i j * ?K2 i j / (?K1 i j + ?K2 i j)) \<and>
           (?K1 i j = 0 \<or> ?K2 i j = 0 \<longrightarrow> K i j = 0)"
    using e harmonicAverage_formula by (auto simp: harmonicAverage_def)
  with it s show "\<exists>it K1 K2 s1 s2.
        it \<in> set (concat (leafElements (grid sim))) \<and> neighbor it \<and>
        k = intersectIdx ?N (inside it) (outside it) \<and>
        scaledPermeabilities ?M ?gc ?perm it = (K1, K2) \<and>
        K1 = scaleMatrix (?perm ! inside it) s1 \<and>
        K2 = scaleMatrix (?perm ! outside it) s2 \<and>
        (\<forall>i j. i < dimWorld \<and> j < dimWorld \<longrightarrow>
           K i j = harmonicAverage (K1 i j) (K2 i j) \<and>
           (K1 i j + K2 i j \<noteq> 0 \<longrightarrow> K i j = 2 * K1 i j * K2 i j / (K1 i j + K2 i j)) \<and>
           (K1 i j = 0 \<or> K2 i j = 0 \<longrightarrow> K i j = 0))"
    by blast
  show "harmonicAverage a b = harmonicAverage b a" for a b by (rule harmonicAverage_commute)
  show "harmonicAverage a 0 = 0" for a by (rule harmonicAverage_zero)
qed


lemma inactive_face_map:
  "intersectionIntrinsicPermeability
     (computeFaceIntrinsicPermeabilities (inactiveSim [1, 1, 2]) exampleProblem) 1 =
   Some (faceTensor (loadMultipliers (inactiveEclipseState [1, 1, 2]) 2) [1, 2]
           (intrinsicPermeability exampleProblem) (interiorFace 0 1 1))"
  by (simp add: computeFaceIntrinsicPermeabilities_def faceLoop_def visitIntersection_def
      inactive_defs exampleProblem_def intersectIdx_def Let_def numeral_2_eq_2)

theorem C2_harmonic_average_witness:
  "(\<exists>it K1 K2 s1 s2.
        it \<in> set (concat (leafElements (grid (inactiveSim [1, 1, 2])))) \<and> neighbor it \<and>
        1 = intersectIdx (length (leafElements (grid (inactiveSim [1, 1, 2])))) (inside it) (outside it) \<and>
        scaledPermeabilities
          (loadMultipliers (eclipseState (inactiveSim [1, 1, 2]))
             (length (leafElements (grid (inactiveSim [1, 1, 2])))))
          (globalCell (grid (inactiveSim [1, 1, 2]))) (intrinsicPermeability exampleProblem) it = (K1, K2) \<and>
        K1 = scaleMatrix (intrinsicPermeability exampleProblem ! inside it) s1 \<and>
        K2 = scaleMatrix (intrinsicPermeability exampleProblem ! outside it) s2 \<and>
        (\<forall>i j. i < dimWorld \<and> j < dimWorld \<longrightarrow>
           faceTensor (loadMultipliers (inactiveEclipseState [1, 1, 2]) 2) [1, 2]
             (intrinsicPermeability exampleProblem) (interiorFace 0 1 1) i j =
             harmonicAverage (K1 i j) (K2 i j) \<and>
           (K1 i j + K2 i j \<noteq> 0 \<longrightarrow>
              faceTensor (loadMultipliers (inactiveEclipseState [1, 1, 2]) 2) [1, 2]
                (intrinsicPermeability exampleProblem) (interiorFace 0 1 1) i j =
              2 * K1 i j * K2 i j / (K1 i j + K2 i j)) \<and>
           (K1 i j = 0 \<or> K2 i j = 0 \<longrightarrow>
              faceTensor (loadMultipliers (inactiveEclipseState [1, 1, 2]) 2) [1, 2]
                (intrinsicPermeability exampleProblem) (interiorFace 0 1 1) i j = 0)))
   \<and> harmonicAverage 100 200 = harmonicAverage 200 100
   \<and> harmonicAverage 100 0 = 0
   \<and> the (intersectionIntrinsicPermeability
            (computeFaceIntrinsicPermeabilities (inactiveSim [1, 1, 2]) exampleProblem) 1) 0 0 = 400 / 3
   \<and> the (intersectionIntrinsicPermeability
            (computeFaceIntrinsicPermeabilities (inactiveSim [1, 1, 2]) exampleProblem) 1) 0 1 = 0"
proof -
  have e: "intersectionIntrinsicPermeability exampleProblem = Map.empty"
    by (simp add: exampleProblem_def newProblem_def)
  note C = C2_harmonic_average [OF e inactive_face_map]
  have v: "faceTensor (loadMultipliers (inactiveEclipseState [1, 1, 2]) 2) [1, 2]
             (intrinsicPermeability exampleProblem) (interiorFace 0 1 1) 0 0 = 400 / 3"
       "faceTensor (loadMultipliers (inactiveEclipseState [1, 1, 2]) 2) [1, 2]
             (intrinsicPermeability exampleProblem) (interiorFace 0 1 1) 0 1 = 0"
    by (simp_all add: faceTensor_def scaledPermeabilities_def applyMultipliers_def
        loadMultipliers_def multiplierData_def inactiveEclipseState_def interiorFace_def
        exampleProblem_def newProblem_def harmonicAverageMatrix_def harmonicAverage_def
        scaleMatrix_def setEntry_def zeroMatrix_def dimWorld_def)
  have s: "harmonicAverage 100 200 = harmonicAverage 200 100" "harmonicAverage 100 0 = 0"
    using C by blast+
  show ?thesis
    unfolding inactive_face_map option.sel
    using C [THEN conjunct1] s v by (intro conjI)
qed





section \<open>Cell tensors, table counts and saturation regions\<close>

lemma readMaterialParameters_InrD:
  assumes "readMaterialParameters sim p = Inr p'"
  shows "\<exists>perm por params idx.
           readPermeability (eclipseState sim) (globalCell (grid sim)) (numDof sim) = Inr perm \<and>
           readPorosity (eclipseState sim) (globalCell (grid sim)) (numDof sim) = Inr por \<and>
           readFluidParameters (deck sim) = Inr params \<and>
           readSatnum (eclipseState sim) (globalCell (grid sim)) (numDof sim) (length params) = Inr idx \<and>
           p' = (computeFaceIntrinsicPermeabilities sim
                   (p\<lparr>intrinsicPermeability :=
                        applyNtgToPermeability (eclipseState sim) (globalCell (grid sim))
                          (numDof sim) perm\<rparr>))
                \<lparr>porosity := por, materialParams := params, materialParamTableIdx := idx\<rparr>"
  using assms unfolding readMaterialParameters_def Let_def
  by (auto split: sum.splits)

lemma readMaterialParameters_InrI:
  assumes "readPermeability (eclipseState sim) (globalCell (grid sim)) (numDof sim) = Inr perm"
    and "readPorosity (eclipseState sim) (globalCell (grid sim)) (numDof sim) = Inr por"
    and "readFluidParameters (deck sim) = Inr params"
    and "readSatnum (eclipseState sim) (globalCell (grid sim)) (numDof sim) (length params) = Inr idx"
  shows "readMaterialParameters sim p =
           Inr ((computeFaceIntrinsicPermeabilities sim
                   (p\<lparr>intrinsicPermeability :=
                        applyNtgToPermeability (eclipseState sim) (globalCell (grid sim))
                          (numDof sim) perm\<rparr>))
                \<lparr>porosity := por, materialParams := params, materialParamTableIdx := idx\<rparr>)"
  using assms unfolding readMaterialParameters_def Let_def by simp

lemma computeFace_perm [simp]:
  "intrinsicPermeability (computeFaceIntrinsicPermeabilities sim p) = intrinsicPermeability p"
  by (simp add: computeFaceIntrinsicPermeabilities_def Let_def)

lemma setEntry_apply:
  "setEntry K a b v i j = (if i = a \<and> j = b then v else K i j)"
  by (simp add: setEntry_def)

lemma readPermeability_InrD:
  assumes "readPermeability es gc n = Inr perm"
  shows "\<exists>permxData. doubleGridProperty es ''PERMX'' = Some permxData \<and> length perm = n \<and>
           (\<forall>dofIdx < n.
              perm ! dofIdx =
                setEntry (setEntry (setEntry zeroMatrix 0 0 (permxData ! (gc ! dofIdx)))
                   1 1 ((case doubleGridProperty es ''PERMY'' of Some d \<Rightarrow> d | None \<Rightarrow> permxData)
                          ! (gc ! dofIdx)))
                   2 2 ((case doubleGridProperty es ''PERMZ'' of Some d \<Rightarrow> d | None \<Rightarrow> permxData)
                          ! (gc ! dofIdx)))"
  using assms unfolding readPermeability_def Let_def
  by (auto split: option.splits)

lemma applyNtg_length:
  "length perm = n \<Longrightarrow> length (applyNtgToPermeability es gc n perm) = n"
  by (simp add: applyNtgToPermeability_def split: option.splits)

lemma applyNtg_nth_None:
  "doubleGridProperty es ''NTG'' = None \<Longrightarrow> applyNtgToPermeability es gc n perm ! dofIdx = perm ! dofIdx"
  by (simp add: applyNtgToPermeability_def)

lemma applyNtg_nth_Some:
  "doubleGridProperty es ''NTG'' = Some ntgData \<Longrightarrow> dofIdx < n \<Longrightarrow>
   applyNtgToPermeability es gc n perm ! dofIdx =
     setEntry (setEntry (perm ! dofIdx) 0 0 ((perm ! dofIdx) 0 0 * ntgData ! (gc ! dofIdx)))
       1 1 ((perm ! dofIdx) 1 1 * ntgData ! (gc ! dofIdx))"
  by (simp add: applyNtgToPermeability_def Let_def setEntry_apply)

lemma cell_permeability_entries:
  assumes ok: "readMaterialParameters sim p = Inr p'"
    and dof: "dofIdx < numDof sim"
  shows "\<exists>permxData permyData permzData.
           doubleGridProperty (eclipseState sim) ''PERMX'' = Some permxData \<and>
           permyData = (case doubleGridProperty (eclipseState sim) ''PERMY'' of
                          Some d \<Rightarrow> d | None \<Rightarrow> permxData) \<and>
           permzData = (case doubleGridProperty (eclipseState sim) ''PERMZ'' of
                          Some d \<Rightarrow> d | None \<Rightarrow> permxData) \<and>
           length (intrinsicPermeability p') = numDof sim \<and>
           (doubleGridProperty (eclipseState sim) ''NTG'' = None \<longrightarrow>
              (intrinsicPermeability p' ! dofIdx) 0 0 = permxData ! (globalCell (grid sim) ! dofIdx) \<and>
              (intrinsicPermeability p' ! dofIdx) 1 1 = permyData ! (globalCell (grid sim) ! dofIdx) \<and>
              (intrinsicPermeability p' ! dofIdx) 2 2 = permzData ! (globalCell (grid sim) ! dofIdx)) \<and>
           (\<forall>ntgData. doubleGridProperty (eclipseState sim) ''NTG'' = Some ntgData \<longrightarrow>
              (intrinsicPermeability p' ! dofIdx) 0 0 =
                 permxData ! (globalCell (grid sim) ! dofIdx) * ntgData ! (globalCell (grid sim) ! dofIdx) \<and>
              (intrinsicPermeability p' ! dofIdx) 1 1 =
                 permyData ! (globalCell (grid sim) ! dofIdx) * ntgData ! (globalCell (grid sim) ! dofIdx) \<and>
              (intrinsicPermeability p' ! dofIdx) 2 2 = permzData ! (globalCell (grid sim) ! dofIdx)) \<and>
           (\<forall>i j. i \<noteq> j \<longrightarrow> (intrinsicPermeability p' ! dofIdx) i j = 0)"
proof -
  let ?es = "eclipseState sim" and ?gc = "globalCell (grid sim)" and ?n = "numDof sim"
  from readMaterialParameters_InrD [OF ok] obtain perm where
    perm: "readPermeability ?es ?gc ?n = Inr perm" and
    p': "intrinsicPermeability p' = applyNtgToPermeability ?es ?gc ?n perm"
    by auto
  from readPermeability_InrD [OF perm] dof obtain permxData where
    x: "doubleGridProperty ?es ''PERMX'' = Some permxData" and len: "length perm = ?n" and
    K: "perm ! dofIdx =
          setEntry (setEntry (setEntry zeroMatrix 0 0 (permxData ! (?gc ! dofIdx)))
             1 1 ((case doubleGridProperty ?es ''PERMY'' of Some d \<Rightarrow> d | None \<Rightarrow> permxData)
                    ! (?gc ! dofIdx)))
             2 2 ((case doubleGridProperty ?es ''PERMZ'' of Some d \<Rightarrow> d | None \<Rightarrow> permxData)
                    ! (?gc ! dofIdx))"
    by blast
  show ?thesis
  proof (cases "doubleGridProperty ?es ''NTG''")
    case None
    then show ?thesis
      using x len p' K applyNtg_length [OF len]
      by (simp add: applyNtg_nth_None setEntry_apply zeroMatrix_def)
  next
    case (Some ntgData)
    then show ?thesis
      using x len p' K dof applyNtg_length [OF len]
      by (simp add: applyNtg_nth_Some setEntry_apply zeroMatrix_def)
  qed
qed


text \<open>
  C8. After \<^verbatim>\<open>readMaterialParameters_\<close> has succeeded, the tensor of every cell
  \<open>dofIdx < numDof\<close> has, with \<open>c\<close> the logical index of the cell, the diagonal
  \<open>PERMX[c]\<close>, \<open>PERMY[c]\<close>, \<open>PERMZ[c]\<close>, where the PERMY and the PERMZ array are the
  PERMX array when the keyword is absent; when NTG is present the first two diagonal
  entries are multiplied by \<open>NTG[c]\<close> and the third is not. All other entries are zero.
\<close>

theorem C8_cell_permeability:
  assumes "readMaterialParameters sim p = Inr p'"
    and "dofIdx < numDof sim"
  shows "\<exists>permxData permyData permzData.
           doubleGridProperty (eclipseState sim) ''PERMX'' = Some permxData \<and>
           permyData = (case doubleGridProperty (eclipseState sim) ''PERMY'' of
                          Some d \<Rightarrow> d | None \<Rightarrow> permxData) \<and>
           permzData = (case doubleGridProperty (eclipseState sim) ''PERMZ'' of
                          Some d \<Rightarrow> d | None \<Rightarrow> permxData) \<and>
           length (intrinsicPermeability p') = numDof sim \<and>
           (doubleGridProperty (eclipseState sim) ''NTG'' = None \<longrightarrow>
              (intrinsicPermeability p' ! dofIdx) 0 0 = permxData ! (globalCell (grid sim) ! dofIdx) \<and>
              (intrinsicPermeability p' ! dofIdx) 1 1 = permyData ! (globalCell (grid sim) ! dofIdx) \<and>
              (intrinsicPermeability p' ! dofIdx) 2 2 = permzData ! (globalCell (grid sim) ! dofIdx)) \<and>
           (\<forall>ntgData. doubleGridProperty (eclipseState sim) ''NTG'' = Some ntgData \<longrightarrow>
              (intrinsicPermeability p' ! dofIdx) 0 0 =
                 permxData ! (globalCell (grid sim) ! dofIdx) * ntgData ! (globalCell (grid sim) ! dofIdx) \<and>
              (intrinsicPermeability p' ! dofIdx) 1 1 =
                 permyData ! (globalCell (grid sim) ! dofIdx) * ntgData ! (globalCell (grid sim) ! dofIdx) \<and>
              (intrinsicPermeability p' ! dofIdx) 2 2 = permzData ! (globalCell (grid sim) ! dofIdx)) \<and>
           (\<forall>i j. i \<noteq> j \<longrightarrow> (intrinsicPermeability p' ! dofIdx) i j = 0)"
  using assms by (rule cell_permeability_entries)

lemma readPermeability_ok:
  "doubleGridProperty es ''PERMX'' = Some d \<Longrightarrow> \<exists>perm. readPermeability es gc n = Inr perm"
  by (simp add: readPermeability_def Let_def)

lemma readPorosity_ok:
  "doubleGridProperty es ''PORO'' = Some d \<Longrightarrow> \<exists>por. readPorosity es gc n = Inr por"
  by (simp add: readPorosity_def Let_def)

lemma readFluidParameters_ok:
  "swofKeyword d = Some swof \<Longrightarrow> sgofKeyword d = Some sgof \<Longrightarrow> length swof = length sgof \<Longrightarrow>
   \<exists>params. readFluidParameters d = Inr params \<and> length params = length swof"
  by (simp add: readFluidParameters_def getKeyword_def Let_def)

lemma readFluidParameters_mismatch:
  "swofKeyword d = Some swof \<Longrightarrow> sgofKeyword d = Some sgof \<Longrightarrow> length swof \<noteq> length sgof \<Longrightarrow>
   readFluidParameters d = Inl (AssertionFailed
      ''Opm::SwofTable::numTables(swofKeyword) == Opm::SgofTable::numTables(sgofKeyword)'')"
  by (simp add: readFluidParameters_def getKeyword_def)

lemma readFluidParameters_InrD:
  "readFluidParameters d = Inr params \<Longrightarrow>
   \<exists>swof sgof. swofKeyword d = Some swof \<and> sgofKeyword d = Some sgof \<and>
     length swof = length sgof \<and> length params = length swof"
  by (auto simp: readFluidParameters_def getKeyword_def Let_def split: option.splits if_splits)

lemma readMaterialParameters_fluid_Inl:
  "readFluidParameters (deck sim) = Inl e \<Longrightarrow> \<exists>e'. readMaterialParameters sim p = Inl e'"
  unfolding readMaterialParameters_def Let_def by (simp split: sum.splits)

lemma readMaterialParameters_fluid_Inl_exact:
  "readPermeability (eclipseState sim) (globalCell (grid sim)) (numDof sim) = Inr perm \<Longrightarrow>
   readPorosity (eclipseState sim) (globalCell (grid sim)) (numDof sim) = Inr por \<Longrightarrow>
   readFluidParameters (deck sim) = Inl e \<Longrightarrow> readMaterialParameters sim p = Inl e"
  unfolding readMaterialParameters_def Let_def by simp

text \<open>
  C9. When the SWOF and the SGOF keyword hold different numbers of tables,
  \<^verbatim>\<open>readMaterialParameters_\<close> fails: with rock data present the failure is the assertion
  on the two table counts. Whenever it succeeds, the two counts are equal and there is one
  material law per table.
\<close>

theorem C9_table_count_mismatch:
  "(\<forall>swof sgof.
      swofKeyword (deck sim) = Some swof \<and> sgofKeyword (deck sim) = Some sgof \<and>
      length swof \<noteq> length sgof \<longrightarrow>
      (\<exists>e. readMaterialParameters sim p = Inl e) \<and>
      (doubleGridProperty (eclipseState sim) ''PERMX'' \<noteq> None \<and>
       doubleGridProperty (eclipseState sim) ''PORO'' \<noteq> None \<longrightarrow>
       readMaterialParameters sim p = Inl (AssertionFailed
         ''Opm::SwofTable::numTables(swofKeyword) == Opm::SgofTable::numTables(sgofKeyword)'')))
   \<and> (\<forall>p'. readMaterialParameters sim p = Inr p' \<longrightarrow>
         (\<exists>swof sgof. swofKeyword (deck sim) = Some swof \<and> sgofKeyword (deck sim) = Some sgof \<and>
            length swof = length sgof \<and> length (materialParams p') = length swof))"
proof (intro conjI allI impI)
  fix swof sgof
  assume a: "swofKeyword (deck sim) = Some swof \<and> sgofKeyword (deck sim) = Some sgof \<and>
             length swof \<noteq> length sgof"
  then have f: "readFluidParameters (deck sim) = Inl (AssertionFailed
      ''Opm::SwofTable::numTables(swofKeyword) == Opm::SgofTable::numTables(sgofKeyword)'')"
    using readFluidParameters_mismatch by blast
  then show "\<exists>e. readMaterialParameters sim p = Inl e"
    by (rule readMaterialParameters_fluid_Inl)
  assume "doubleGridProperty (eclipseState sim) ''PERMX'' \<noteq> None \<and>
          doubleGridProperty (eclipseState sim) ''PORO'' \<noteq> None"
  then obtain perm por where
    "readPermeability (eclipseState sim) (globalCell (grid sim)) (numDof sim) = Inr perm"
    "readPorosity (eclipseState sim) (globalCell (grid sim)) (numDof sim) = Inr por"
    using readPermeability_ok readPorosity_ok by (metis not_None_eq)
  then show "readMaterialParameters sim p = Inl (AssertionFailed
         ''Opm::SwofTable::numTables(swofKeyword) == Opm::SgofTable::numTables(sgofKeyword)'')"
    using f by (rule readMaterialParameters_fluid_Inl_exact)
next
  fix p' assume "readMaterialParameters sim p = Inr p'"
  from readMaterialParameters_InrD [OF this] obtain params where
    "readFluidParameters (deck sim) = Inr params" "materialParams p' = params"
    by (auto simp: computeFaceIntrinsicPermeabilities_def Let_def)
  then show "\<exists>swof sgof. swofKeyword (deck sim) = Some swof \<and> sgofKeyword (deck sim) = Some sgof \<and>
            length swof = length sgof \<and> length (materialParams p') = length swof"
    using readFluidParameters_InrD by blast
qed

lemma harmonicAverage_zero_left: "harmonicAverage 0 b = 0"
  by (simp add: harmonicAverage_def)

lemma faceTensor_offdiag:
  assumes "(perm ! inside it) i j = 0" "i < dimWorld" "j < dimWorld"
  shows "faceTensor M gc perm it i j = 0"
proof -
  obtain s1 s2 where s: "scaledPermeabilities M gc perm it =
      (scaleMatrix (perm ! inside it) s1, scaleMatrix (perm ! outside it) s2)"
    unfolding scaledPermeabilities_def Let_def using applyMultipliers_scales by blast
  show ?thesis
    using faceTensor_entries [OF s assms(2,3)] assms(1)
    by (simp add: scaleMatrix_def harmonicAverage_zero_left)
qed

text \<open>
  C10. After \<^verbatim>\<open>readMaterialParameters_\<close> has succeeded on a freshly constructed problem
  whose interior intersections join cells below \<open>numDof\<close>, every cell tensor and every
  stored face tensor has all entries off the diagonal equal to zero.
\<close>

theorem C10_off_diagonal_zero:
  assumes ok: "readMaterialParameters sim p = Inr p'"
    and empty: "intersectionIntrinsicPermeability p = Map.empty"
    and bounds: "\<forall>it \<in> set (concat (leafElements (grid sim))). neighbor it \<longrightarrow>
                   inside it < numDof sim \<and> outside it < numDof sim"
  shows "(\<forall>dofIdx i j. dofIdx < numDof sim \<and> i < dimWorld \<and> j < dimWorld \<and> i \<noteq> j \<longrightarrow>
            (intrinsicPermeability p' ! dofIdx) i j = 0)
       \<and> (\<forall>k K i j. intersectionIntrinsicPermeability p' k = Some K \<and>
             i < dimWorld \<and> j < dimWorld \<and> i \<noteq> j \<longrightarrow> K i j = 0)"
proof (intro conjI allI impI)
  have cell: "(intrinsicPermeability p' ! dofIdx) i j = 0" if "dofIdx < numDof sim" "i \<noteq> j" for dofIdx i j
    using cell_permeability_entries [OF ok that(1)] that(2) by blast
  show "(intrinsicPermeability p' ! dofIdx) i j = 0"
    if "dofIdx < numDof sim \<and> i < dimWorld \<and> j < dimWorld \<and> i \<noteq> j" for dofIdx i j
    using cell that by blast
  show "K i j = 0"
    if h: "intersectionIntrinsicPermeability p' k = Some K \<and>
          i < dimWorld \<and> j < dimWorld \<and> i \<noteq> j" for k K i j
  proof -
    let ?N = "length (leafElements (grid sim))"
    let ?M = "loadMultipliers (eclipseState sim) ?N"
    let ?gc = "globalCell (grid sim)"
    let ?perm = "intrinsicPermeability p'"
    from readMaterialParameters_InrD [OF ok] empty
    have "intersectionIntrinsicPermeability p' =
            faceLoop ?M ?gc ?perm ?N (leafElements (grid sim)) Map.empty"
      by (auto simp: computeFaceIntrinsicPermeabilities_def Let_def)
    with h have "fold (visitIntersection ?M ?gc ?perm ?N) (concat (leafElements (grid sim)))
                   Map.empty k = Some K"
      by (simp add: faceLoop_concat)
    from fold_visit_new [OF this] obtain it where
      it: "it \<in> set (concat (leafElements (grid sim)))" "neighbor it" "K = faceTensor ?M ?gc ?perm it"
      by auto
    then have "inside it < numDof sim" using bounds by blast
    then have "(?perm ! inside it) i j = 0" using cell h by blast
    then show ?thesis using faceTensor_offdiag it(3) h by blast
  qed
qed


lemma upt_0_2: "[0..<2] = [0, 1]"
  by (simp add: numeral_2_eq_2)

lemma inactive_sim_fields:
  "eclipseState (inactiveSim s) = inactiveEclipseState s"
  "globalCell (grid (inactiveSim s)) = [1, 2]"
  "numDof (inactiveSim s) = 2"
  "deck (inactiveSim s) = inactiveDeck"
  "leafElements (grid (inactiveSim s)) = leafElements inactiveGrid"
  by (simp_all add: inactiveSim_def inactiveGrid_def)

lemma inactive_run:
  assumes "readSatnum (inactiveEclipseState s) [1, 2] 2 2 = Inr idx"
  shows "\<exists>p'. readMaterialParameters (inactiveSim s) p = Inr p' \<and>
              materialParamTableIdx p' = idx \<and> length (materialParams p') = 2"
proof -
  obtain perm where 1: "readPermeability (inactiveEclipseState s) [1, 2] 2 = Inr perm"
    using readPermeability_ok [of "inactiveEclipseState s" "[50, 100, 200]"]
    by (auto simp: inactiveEclipseState_def)
  obtain por where 2: "readPorosity (inactiveEclipseState s) [1, 2] 2 = Inr por"
    using readPorosity_ok [of "inactiveEclipseState s" "[0.125, 0.25, 0.5]"]
    by (auto simp: inactiveEclipseState_def)
  obtain params where 3: "readFluidParameters inactiveDeck = Inr params" "length params = 2"
    using readFluidParameters_ok [of inactiveDeck "[exampleSwof, exampleSwof]" "[exampleSgof, exampleSgof]"]
    by (auto simp: inactiveDeck_def)
  show ?thesis
    using readMaterialParameters_InrI [of "inactiveSim s" perm por params idx p] 1 2 3 assms
    by (simp add: inactive_sim_fields)
qed

lemma readSatnum_inactive_valid: "readSatnum (inactiveEclipseState [1, 1, 2]) [1, 2] 2 2 = Inr [0, 1]"
  by (simp add: readSatnum_def inactiveEclipseState_def upt_0_2 satnumBody_def)

lemma readSatnum_inactive_unchecked: "readSatnum (inactiveEclipseState [1, 1, 5]) [1, 2] 2 2 = Inr [0, 4]"
  by (simp add: readSatnum_def inactiveEclipseState_def upt_0_2 satnumBody_def)

lemma readSatnum_inactive_rejected:
  "readSatnum (inactiveEclipseState [7, 1, 2]) [1, 2] 2 2 =
     Inl (AssertionFailed ''satnumData[dofIdx] <= static_cast<int>(numSatfuncTables)'')"
  by (simp add: readSatnum_def inactiveEclipseState_def upt_0_2 satnumBody_def)

lemma Inr_projr: "\<exists>y. x = Inr y \<Longrightarrow> x = Inr (projr x)"
  by auto

lemma inactive_valid_ok:
  "readMaterialParameters (inactiveSim [1, 1, 2]) (newProblem 293.15) =
     Inr (projr (readMaterialParameters (inactiveSim [1, 1, 2]) (newProblem 293.15)))"
  using inactive_run [OF readSatnum_inactive_valid] by (intro Inr_projr) blast

theorem C8_cell_permeability_witness:
  "(intrinsicPermeability
      (projr (readMaterialParameters (inactiveSim [1, 1, 2]) (newProblem 293.15))) ! 1) 0 0 = 50
   \<and> (intrinsicPermeability
      (projr (readMaterialParameters (inactiveSim [1, 1, 2]) (newProblem 293.15))) ! 1) 1 1 = 50
   \<and> (intrinsicPermeability
      (projr (readMaterialParameters (inactiveSim [1, 1, 2]) (newProblem 293.15))) ! 1) 2 2 = 20
   \<and> (intrinsicPermeability
      (projr (readMaterialParameters (inactiveSim [1, 1, 2]) (newProblem 293.15))) ! 1) 0 2 = 0
   \<and> length (intrinsicPermeability
      (projr (readMaterialParameters (inactiveSim [1, 1, 2]) (newProblem 293.15)))) = 2"
proof -
  have d: "(1::nat) < numDof (inactiveSim [1, 1, 2])" by (simp add: inactive_sim_fields)
  from C8_cell_permeability [OF inactive_valid_ok d]
  show ?thesis
    by (simp add: inactive_sim_fields) (simp add: inactiveEclipseState_def)
qed


theorem C9_table_count_mismatch_witness:
  "readMaterialParameters mismatchSim (newProblem 293.15) =
     Inl (AssertionFailed
       ''Opm::SwofTable::numTables(swofKeyword) == Opm::SgofTable::numTables(sgofKeyword)'')
   \<and> length (materialParams
        (projr (readMaterialParameters (inactiveSim [1, 1, 2]) (newProblem 293.15)))) = 2"
proof -
  have m: "swofKeyword (deck mismatchSim) = Some [exampleSwof, exampleSwof] \<and>
           sgofKeyword (deck mismatchSim) = Some [exampleSgof] \<and>
           length [exampleSwof, exampleSwof] \<noteq> length [exampleSgof]"
    by (simp add: mismatchSim_def inactiveDeck_def)
  have r: "doubleGridProperty (eclipseState mismatchSim) ''PERMX'' \<noteq> None \<and>
           doubleGridProperty (eclipseState mismatchSim) ''PORO'' \<noteq> None"
    by (simp add: mismatchSim_def inactiveSim_def inactiveEclipseState_def)
  have 1: "readMaterialParameters mismatchSim (newProblem 293.15) =
     Inl (AssertionFailed
       ''Opm::SwofTable::numTables(swofKeyword) == Opm::SgofTable::numTables(sgofKeyword)'')"
    using C9_table_count_mismatch [of mismatchSim "newProblem 293.15", THEN conjunct1,
        rule_format, OF m, THEN conjunct2, rule_format, OF r] .
  have 2: "length (materialParams
        (projr (readMaterialParameters (inactiveSim [1, 1, 2]) (newProblem 293.15)))) = 2"
    using C9_table_count_mismatch [of "inactiveSim [1, 1, 2]" "newProblem 293.15", THEN conjunct2,
        rule_format, OF inactive_valid_ok]
    by (auto simp: inactive_sim_fields inactiveDeck_def)
  show ?thesis using 1 2 by blast
qed

lemma inactive_face_key:
  "intersectionIntrinsicPermeability
     (projr (readMaterialParameters (inactiveSim [1, 1, 2]) (newProblem 293.15))) 1 =
   Some (the (intersectionIntrinsicPermeability
     (projr (readMaterialParameters (inactiveSim [1, 1, 2]) (newProblem 293.15))) 1))"
proof -
  let ?p' = "projr (readMaterialParameters (inactiveSim [1, 1, 2]) (newProblem 293.15))"
  from readMaterialParameters_InrD [OF inactive_valid_ok] obtain p1 where
    "intersectionIntrinsicPermeability ?p' =
       intersectionIntrinsicPermeability (computeFaceIntrinsicPermeabilities (inactiveSim [1, 1, 2]) p1)"
    by auto
  then have "dom (intersectionIntrinsicPermeability ?p') \<supseteq>
             faceKeys (length (leafElements inactiveGrid)) (concat (leafElements inactiveGrid))"
    by (simp add: dom_computeFace inactive_sim_fields)
  moreover have "1 \<in> faceKeys (length (leafElements inactiveGrid)) (concat (leafElements inactiveGrid))"
    unfolding faceKeys_def Collect_set_filter
    by (simp add: inactiveGrid_def boundaryFace_def interiorFace_def intersectIdx_def)
  ultimately show ?thesis by auto
qed

theorem C10_off_diagonal_zero_witness:
  "(intrinsicPermeability
      (projr (readMaterialParameters (inactiveSim [1, 1, 2]) (newProblem 293.15))) ! 0) 0 1 = 0
   \<and> the (intersectionIntrinsicPermeability
      (projr (readMaterialParameters (inactiveSim [1, 1, 2]) (newProblem 293.15))) 1) 2 1 = 0"
proof -
  have e: "intersectionIntrinsicPermeability (newProblem 293.15) = Map.empty"
    by (simp add: newProblem_def)
  have b: "\<forall>it \<in> set (concat (leafElements (grid (inactiveSim [1, 1, 2])))). neighbor it \<longrightarrow>
             inside it < numDof (inactiveSim [1, 1, 2]) \<and> outside it < numDof (inactiveSim [1, 1, 2])"
    unfolding inactive_sim_fields
    by (simp add: inactiveGrid_def boundaryFace_def interiorFace_def)
  note C = C10_off_diagonal_zero [OF inactive_valid_ok e b]
  have 1: "(intrinsicPermeability
      (projr (readMaterialParameters (inactiveSim [1, 1, 2]) (newProblem 293.15))) ! 0) 0 1 = 0"
    using C [THEN conjunct1, rule_format, of 0 0 1] by (simp add: inactive_sim_fields dimWorld_def)
  have 2: "the (intersectionIntrinsicPermeability
      (projr (readMaterialParameters (inactiveSim [1, 1, 2]) (newProblem 293.15))) 1) 2 1 = 0"
    using C [THEN conjunct2, rule_format, of 1 _ 2 1] inactive_face_key by (simp add: dimWorld_def)
  show ?thesis using 1 2 by blast
qed

lemma inactive_rejected:
  assumes "readSatnum (inactiveEclipseState s) [1, 2] 2 2 = Inl e"
  shows "readMaterialParameters (inactiveSim s) p = Inl e"
proof -
  obtain perm where 1: "readPermeability (inactiveEclipseState s) [1, 2] 2 = Inr perm"
    using readPermeability_ok [of "inactiveEclipseState s" "[50, 100, 200]"]
    by (auto simp: inactiveEclipseState_def)
  obtain por where 2: "readPorosity (inactiveEclipseState s) [1, 2] 2 = Inr por"
    using readPorosity_ok [of "inactiveEclipseState s" "[0.125, 0.25, 0.5]"]
    by (auto simp: inactiveEclipseState_def)
  obtain params where 3: "readFluidParameters inactiveDeck = Inr params" "length params = 2"
    using readFluidParameters_ok [of inactiveDeck "[exampleSwof, exampleSwof]" "[exampleSgof, exampleSgof]"]
    by (auto simp: inactiveDeck_def)
  show ?thesis
    unfolding readMaterialParameters_def Let_def inactive_sim_fields
    using 1 2 3 assms by simp
qed

text \<open>
  C6. The range assertions of the SATNUM loop read \<^verbatim>\<open>satnumData[dofIdx]\<close>, the stored
  index comes from \<^verbatim>\<open>satnumData[cartesianElemIdx]\<close>. On the grid whose first logical cell
  is inactive, with two saturation regions: the array \<open>[1, 1, 5]\<close> passes, and the second
  cell gets the table index 4, beyond the two tables; the array \<open>[7, 1, 2]\<close>, whose values
  for the two active cells are 1 and 2, is rejected.
\<close>

theorem C6_satnum_check_reads_wrong_index:
  "readMaterialParameters (inactiveSim [1, 1, 5]) (newProblem 293.15) =
     Inr (projr (readMaterialParameters (inactiveSim [1, 1, 5]) (newProblem 293.15)))
   \<and> materialParamTableIdx
       (projr (readMaterialParameters (inactiveSim [1, 1, 5]) (newProblem 293.15))) = [0, 4]
   \<and> length (materialParams
       (projr (readMaterialParameters (inactiveSim [1, 1, 5]) (newProblem 293.15)))) = 2
   \<and> materialLawTableIdx
       (projr (readMaterialParameters (inactiveSim [1, 1, 5]) (newProblem 293.15))) 1 = 4
   \<and> readMaterialParameters (inactiveSim [7, 1, 2]) (newProblem 293.15) =
       Inl (AssertionFailed ''satnumData[dofIdx] <= static_cast<int>(numSatfuncTables)'')"
proof -
  from inactive_run [OF readSatnum_inactive_unchecked, of "newProblem 293.15"]
  obtain p' where p': "readMaterialParameters (inactiveSim [1, 1, 5]) (newProblem 293.15) = Inr p'"
    "materialParamTableIdx p' = [0, 4]" "length (materialParams p') = 2"
    by blast
  then have "materialLawTableIdx p' 1 = 4" by (simp add: materialLawTableIdx_def)
  with p' inactive_rejected [OF readSatnum_inactive_rejected, of "newProblem 293.15"]
  show ?thesis by simp
qed

section \<open>Rounding to a double\<close>

lemma expUp_numeral:
  "expUp (numeral k) x = (if 2 \<le> x then expUp (pred_numeral k) (x / 2) + 1 else 0)"
  by (simp add: numeral_eq_Suc)

lemma expDown_numeral:
  "expDown (numeral k) x = (if x < 1 then expDown (pred_numeral k) (2 * x) - 1 else 0)"
  by (simp add: numeral_eq_Suc)

lemmas double_eval =
  roundToDouble_def quantum_def binade_def expUp_numeral expDown_numeral pow2_def
  roundHalfEven_def Let_def doubleMinus_def doublePlus_def

lemma roundHalfEven_error: "\<bar>of_int (roundHalfEven y) - y\<bar> \<le> 1 / 2"
  unfolding roundHalfEven_def Let_def by (auto simp: abs_if) linarith+

lemma pow2_pos: "0 < pow2 k"
  by (simp add: pow2_def)

lemma quantum_pos: "0 < quantum x"
  by (simp add: quantum_def pow2_pos)

lemma roundToDouble_error: "\<bar>roundToDouble x - x\<bar> \<le> quantum x / 2"
proof -
  let ?q = "quantum x"
  have q: "0 < ?q" by (rule quantum_pos)
  have "roundToDouble x - x = ?q * (of_int (roundHalfEven (x / ?q)) - x / ?q)"
    using q by (simp add: roundToDouble_def algebra_simps)
  then have "\<bar>roundToDouble x - x\<bar> = ?q * \<bar>of_int (roundHalfEven (x / ?q)) - x / ?q\<bar>"
    using q by (simp add: abs_mult)
  also have "\<dots> \<le> ?q * (1 / 2)"
    using q roundHalfEven_error [of "x / ?q"] by (intro mult_left_mono) simp_all
  finally show ?thesis by simp
qed

lemma expDown_le_0: "expDown n x \<le> 0"
proof (induction n arbitrary: x)
  case 0
  show ?case by simp
next
  case (Suc n)
  have "expDown n (2 * x) \<le> 0" by (rule Suc.IH)
  then show ?case by simp
qed

lemma binade_le_0: "\<bar>x\<bar> \<le> 1 \<Longrightarrow> binade x \<le> 0"
  by (auto simp: binade_def expUp_numeral expDown_le_0)

lemma pow2_mono: "k \<le> k' \<Longrightarrow> pow2 k \<le> pow2 k'"
proof -
  have p: "pow2 k = 2 powr (of_int k)" for k
    by (auto simp: pow2_def powr_realpow [symmetric] powr_minus divide_simps)
  assume "k \<le> k'" then show ?thesis unfolding p by simp
qed

lemma quantum_small: "\<bar>x\<bar> \<le> 1 \<Longrightarrow> quantum x \<le> 1 / 2 ^ 52"
proof -
  assume "\<bar>x\<bar> \<le> 1"
  then have "binade x - 52 \<le> - 52" using binade_le_0 by simp
  from pow2_mono [OF this] show ?thesis by (simp add: quantum_def pow2_def)
qed

lemma roundHalfEven_nonneg: "0 \<le> y \<Longrightarrow> 0 \<le> roundHalfEven y"
  unfolding roundHalfEven_def Let_def by auto

lemma roundHalfEven_le_int: "y \<le> of_int n \<Longrightarrow> roundHalfEven y \<le> n"
proof -
  assume y: "y \<le> of_int n"
  show ?thesis
  proof (cases "y = of_int n")
    case True
    then show ?thesis by (simp add: roundHalfEven_def)
  next
    case False
    with y have "y < of_int n" by simp
    then have "\<lfloor>y\<rfloor> < n" by (simp add: floor_less_iff)
    then show ?thesis unfolding roundHalfEven_def Let_def by auto
  qed
qed

lemma roundToDouble_unit:
  assumes "0 \<le> x" "x \<le> 1"
  shows "0 \<le> roundToDouble x \<and> roundToDouble x \<le> 1"
proof -
  let ?q = "quantum x"
  have q: "0 < ?q" by (rule quantum_pos)
  have b: "binade x - 52 < 0" using binade_le_0 [of x] assms by simp
  then have qq: "?q = 1 / 2 ^ nat (52 - binade x)"
    by (simp add: quantum_def pow2_def)
  have inv: "1 / ?q = of_int (2 ^ nat (52 - binade x))"
    unfolding qq by simp
  have "0 \<le> x / ?q" using assms q by simp
  then have lo: "0 \<le> roundHalfEven (x / ?q)" by (rule roundHalfEven_nonneg)
  have "x / ?q \<le> 1 / ?q" using assms q by (simp add: divide_right_mono)
  then have "roundHalfEven (x / ?q) \<le> 2 ^ nat (52 - binade x)"
    unfolding inv by (rule roundHalfEven_le_int)
  then have "of_int (roundHalfEven (x / ?q)) \<le> (1 / ?q :: real)"
    unfolding inv by (simp only: of_int_le_iff)
  then have "?q * of_int (roundHalfEven (x / ?q)) \<le> ?q * (1 / ?q)"
    using q by (intro mult_left_mono) simp_all
  then have hi: "roundToDouble x \<le> 1" using q by (simp add: roundToDouble_def)
  have "0 \<le> roundToDouble x" using lo q by (simp add: roundToDouble_def)
  with hi show ?thesis by simp
qed

lemma oil_saturation_sum:
  assumes "0 \<le> sw" "sw \<le> 1" "0 \<le> sg" "sg \<le> 1"
  shows "\<bar>sw + sg + doubleMinus (doubleMinus 1 sw) sg - 1\<bar> \<le> 1 / 2 ^ 52"
proof -
  let ?a = "roundToDouble (1 - sw)"
  have a: "0 \<le> ?a \<and> ?a \<le> 1" using assms by (intro roundToDouble_unit) simp_all
  have e1: "\<bar>?a - (1 - sw)\<bar> \<le> 1 / 2 ^ 53"
    using roundToDouble_error [of "1 - sw"] quantum_small [of "1 - sw"] assms by simp
  have "\<bar>?a - sg\<bar> \<le> 1" using a assms by (simp add: abs_le_iff)
  then have e2: "\<bar>roundToDouble (?a - sg) - (?a - sg)\<bar> \<le> 1 / 2 ^ 53"
    using roundToDouble_error [of "?a - sg"] quantum_small [of "?a - sg"] by simp
  have "sw + sg + doubleMinus (doubleMinus 1 sw) sg - 1 =
          (roundToDouble (?a - sg) - (?a - sg)) + (?a - (1 - sw))"
    by (simp add: doubleMinus_def)
  then have "\<bar>sw + sg + doubleMinus (doubleMinus 1 sw) sg - 1\<bar> \<le>
          \<bar>roundToDouble (?a - sg) - (?a - sg)\<bar> + \<bar>?a - (1 - sw)\<bar>"
    by (simp only: abs_triangle_ineq)
  also have "\<dots> \<le> 1 / 2 ^ 53 + 1 / 2 ^ 53" using e1 e2 by (rule add_mono [rotated])
  finally show ?thesis by simp
qed

section \<open>The initial fluid states\<close>

lemma forEachDof_InrD:
  "forEachDof body ds = Inr xs \<Longrightarrow>
   length xs = length ds \<and> (\<forall>k < length ds. body (ds ! k) = Inr (xs ! k))"
proof (induction ds arbitrary: xs)
  case Nil
  then show ?case by simp
next
  case (Cons d ds)
  from Cons.prems obtain x xs' where
    x: "body d = Inr x" and xs': "forEachDof body ds = Inr xs'" and xs: "xs = x # xs'"
    by (auto split: sum.splits)
  from Cons.IH [OF xs'] x xs show ?case
    by (auto simp: nth_Cons split: nat.splits)
qed

lemma forEachDof_ok:
  "\<forall>d \<in> set ds. \<exists>x. body d = Inr x \<Longrightarrow> \<exists>xs. forEachDof body ds = Inr xs"
  by (induction ds) auto

lemma forEachDof_upt:
  assumes "forEachDof body [0..<n] = Inr xs"
  shows "length xs = n \<and> (\<forall>dofIdx < n. body dofIdx = Inr (xs ! dofIdx))"
  using forEachDof_InrD [OF assms] by simp

lemma readInitialCondition_InrD:
  assumes "readInitialCondition FS fs0 sim p = Inr p'"
  shows "\<exists>sw sg pr rs.
           siDoubleData (deck sim) ''SWAT'' = Some sw \<and>
           siDoubleData (deck sim) ''SGAS'' = Some sg \<and>
           siDoubleData (deck sim) ''PRESSURE'' = Some pr \<and>
           siDoubleData (deck sim) ''RS'' = Some rs \<and>
           length (initialFluidStates p') = numDof sim \<and>
           (\<forall>dofIdx < numDof sim.
              initialFluidStates p' ! dofIdx =
                initialFluidState FS (temperature p) sw sg pr (globalCell (grid sim) ! dofIdx) fs0)"
proof -
  from assms obtain sw sg pr rs states where
    k: "siDoubleData (deck sim) ''SWAT'' = Some sw" "siDoubleData (deck sim) ''SGAS'' = Some sg"
       "siDoubleData (deck sim) ''PRESSURE'' = Some pr" "siDoubleData (deck sim) ''RS'' = Some rs"
    and loop: "forEachDof
            (initialConditionBody FS (temperature p) (globalCell (grid sim))
               (case logicalCartesianSize (grid sim) of (nx, ny, nz) \<Rightarrow> nx * ny * nz)
               sw sg pr fs0) [0..<numDof sim] = Inr states"
    and p': "p' = p\<lparr>initialFluidStates := states\<rparr>"
    unfolding readInitialCondition_def Let_def hasKeyword_def getKeyword_def
    by (auto split: if_splits option.splits sum.splits)
  from forEachDof_upt [OF loop] have
    "length states = numDof sim"
    "\<forall>dofIdx < numDof sim. states ! dofIdx =
        initialFluidState FS (temperature p) sw sg pr (globalCell (grid sim) ! dofIdx) fs0"
    by (auto simp: initialConditionBody_def Let_def split: if_splits)
  with k p' show ?thesis by simp
qed

lemma readInitialCondition_ok:
  assumes "siDoubleData (deck sim) ''SWAT'' = Some sw"
    "siDoubleData (deck sim) ''SGAS'' = Some sg"
    "siDoubleData (deck sim) ''PRESSURE'' = Some pr"
    "siDoubleData (deck sim) ''RS'' = Some rs"
    "logicalCartesianSize (grid sim) = (nx, ny, nz)"
    "length sw = nx * ny * nz" "length sg = nx * ny * nz"
    "length pr = nx * ny * nz" "length rs = nx * ny * nz"
    "\<forall>dofIdx < numDof sim. globalCell (grid sim) ! dofIdx \<le> nx * ny * nz"
  shows "\<exists>p'. readInitialCondition FS fs0 sim p = Inr p'"
proof -
  have "\<exists>xs. forEachDof
            (initialConditionBody FS (temperature p) (globalCell (grid sim)) (nx * ny * nz)
               sw sg pr fs0) [0..<numDof sim] = Inr xs"
    using assms(10) by (intro forEachDof_ok) (simp add: initialConditionBody_def Let_def)
  then show ?thesis
    using assms(1-9)
    unfolding readInitialCondition_def Let_def hasKeyword_def getKeyword_def
    by auto
qed

lemma initialFluidState_saturation:
  "fsSaturation (initialFluidState FS T sw sg pr c fs) =
     (\<lambda>phaseIdx. case phaseIdx of
        waterPhaseIdx \<Rightarrow> sw ! c | gasPhaseIdx \<Rightarrow> sg ! c
      | oilPhaseIdx \<Rightarrow> doubleMinus (doubleMinus 1 (sw ! c)) (sg ! c))"
  by (auto simp: initialFluidState_def Let_def setTemperature_def setSaturation_def setPressure_def
      setMoleFraction_def allPhases_def allComponents_def fun_eq_iff split: Phase.splits)

lemma initialFluidState_pressure:
  "fsPressure (initialFluidState FS T sw sg pr c fs) phaseIdx = pr ! c"
  by (cases phaseIdx)
     (simp_all add: initialFluidState_def Let_def setTemperature_def setSaturation_def setPressure_def
      setMoleFraction_def allPhases_def allComponents_def)

lemma initialFluidState_moleFraction:
  "fsMoleFraction (initialFluidState FS T sw sg pr c fs) phaseIdx compIdx =
     (let oilPressure = pr ! c;
          Bo = oilFormationVolumeFactor FS oilPressure;
          Rs = gasDissolutionFactor FS oilPressure;
          rhoo = surfaceDensity FS oilPhaseIdx / Bo;
          XoG = Rs * surfaceDensity FS gasPhaseIdx / rhoo;
          MG = molarMass FS gasCompIdx;
          MO = molarMass FS oilCompIdx;
          xoG = XoG * MO / ((MO - MG) * XoG + MG)
      in case phaseIdx of
           waterPhaseIdx \<Rightarrow> (if compIdx = waterCompIdx then 1 else 0)
         | gasPhaseIdx \<Rightarrow> (if compIdx = gasCompIdx then 1 else 0)
         | oilPhaseIdx \<Rightarrow> (case compIdx of
                             gasCompIdx \<Rightarrow> xoG | oilCompIdx \<Rightarrow> 1 - xoG | waterCompIdx \<Rightarrow> 0))"
  by (cases phaseIdx; cases compIdx)
     (simp_all add: initialFluidState_def Let_def setTemperature_def setSaturation_def setPressure_def
      setMoleFraction_def allPhases_def allComponents_def)

text \<open>
  The loop body writes every field of the state: what the default-constructed state held
  does not matter.
\<close>

lemma initialFluidState_independent:
  "initialFluidState FS T sw sg pr c fs = initialFluidState FS T sw sg pr c fs'"
proof (rule BlackOilFluidState.equality)
  show "fsTemperature (initialFluidState FS T sw sg pr c fs) =
        fsTemperature (initialFluidState FS T sw sg pr c fs')"
    by (simp add: initialFluidState_def Let_def setTemperature_def setSaturation_def
        setPressure_def setMoleFraction_def allPhases_def allComponents_def)
  show "fsSaturation (initialFluidState FS T sw sg pr c fs) =
        fsSaturation (initialFluidState FS T sw sg pr c fs')"
    by (simp add: initialFluidState_saturation)
  show "fsPressure (initialFluidState FS T sw sg pr c fs) =
        fsPressure (initialFluidState FS T sw sg pr c fs')"
    by (simp add: fun_eq_iff initialFluidState_pressure)
  show "fsMoleFraction (initialFluidState FS T sw sg pr c fs) =
        fsMoleFraction (initialFluidState FS T sw sg pr c fs')"
    by (simp add: fun_eq_iff initialFluidState_moleFraction)
  show "BlackOilFluidState.more (initialFluidState FS T sw sg pr c fs) =
        BlackOilFluidState.more (initialFluidState FS T sw sg pr c fs')"
    by simp
qed

lemma sublist_messages:
  "sublist ''SWAT'' (''So far, the Eclipse input file requires the presence of the SWAT '' @
                              ''and SGAS keywords'')"
  "sublist ''SGAS'' (''So far, the Eclipse input file requires the presence of the SWAT '' @
                              ''and SGAS keywords'')"
  "sublist ''PRESSURE'' (''So far, the Eclipse input file requires the presence of the PRESSURE '' @
                              ''keyword'')"
  by code_simp+


text \<open>
  C4. After \<^verbatim>\<open>readInitialCondition_\<close> has succeeded, the state of every cell
  \<open>dofIdx < numDof\<close> has, with \<open>c\<close> the logical index of the cell, the water saturation
  \<open>SWAT[c]\<close>, the gas saturation \<open>SGAS[c]\<close> and as oil saturation the double
  \<open>(1 - SWAT[c]) - SGAS[c]\<close>, whatever the two values are. The three saturations add up to
  one when the two subtractions are exact, and to within \<open>2^-52\<close> of one when the water
  and the gas saturation lie between 0 and 1. The pressure of every phase is
  \<open>PRESSURE[c]\<close>.
\<close>

theorem C4_saturations_in_double_precision:
  assumes ok: "readInitialCondition FS fs0 sim p = Inr p'"
    and dof: "dofIdx < numDof sim"
    and cell: "dofIdx < length (globalCell (grid sim))"
  shows "\<exists>sw sg pr.
           siDoubleData (deck sim) ''SWAT'' = Some sw \<and>
           siDoubleData (deck sim) ''SGAS'' = Some sg \<and>
           siDoubleData (deck sim) ''PRESSURE'' = Some pr \<and>
           fsSaturation (initialFluidStates p' ! dofIdx) waterPhaseIdx =
             sw ! (globalCell (grid sim) ! dofIdx) \<and>
           fsSaturation (initialFluidStates p' ! dofIdx) gasPhaseIdx =
             sg ! (globalCell (grid sim) ! dofIdx) \<and>
           fsSaturation (initialFluidStates p' ! dofIdx) oilPhaseIdx =
             doubleMinus (doubleMinus 1 (sw ! (globalCell (grid sim) ! dofIdx)))
               (sg ! (globalCell (grid sim) ! dofIdx)) \<and>
           (doubleMinus 1 (sw ! (globalCell (grid sim) ! dofIdx)) =
              1 - sw ! (globalCell (grid sim) ! dofIdx) \<and>
            doubleMinus (1 - sw ! (globalCell (grid sim) ! dofIdx))
              (sg ! (globalCell (grid sim) ! dofIdx)) =
              1 - sw ! (globalCell (grid sim) ! dofIdx) - sg ! (globalCell (grid sim) ! dofIdx) \<longrightarrow>
            fsSaturation (initialFluidStates p' ! dofIdx) waterPhaseIdx
              + fsSaturation (initialFluidStates p' ! dofIdx) gasPhaseIdx
              + fsSaturation (initialFluidStates p' ! dofIdx) oilPhaseIdx = 1) \<and>
           (0 \<le> sw ! (globalCell (grid sim) ! dofIdx) \<and> sw ! (globalCell (grid sim) ! dofIdx) \<le> 1 \<and>
            0 \<le> sg ! (globalCell (grid sim) ! dofIdx) \<and> sg ! (globalCell (grid sim) ! dofIdx) \<le> 1 \<longrightarrow>
            \<bar>fsSaturation (initialFluidStates p' ! dofIdx) waterPhaseIdx
              + fsSaturation (initialFluidStates p' ! dofIdx) gasPhaseIdx
              + fsSaturation (initialFluidStates p' ! dofIdx) oilPhaseIdx - 1\<bar> \<le> 1 / 2 ^ 52) \<and>
           (\<forall>phaseIdx. fsPressure (initialFluidStates p' ! dofIdx) phaseIdx =
              pr ! (globalCell (grid sim) ! dofIdx))"
proof -
  from readInitialCondition_InrD [OF ok] dof obtain sw sg pr where
    k: "siDoubleData (deck sim) ''SWAT'' = Some sw" "siDoubleData (deck sim) ''SGAS'' = Some sg"
       "siDoubleData (deck sim) ''PRESSURE'' = Some pr"
    and st: "initialFluidStates p' ! dofIdx =
               initialFluidState FS (temperature p) sw sg pr (globalCell (grid sim) ! dofIdx) fs0"
    by blast
  let ?c = "globalCell (grid sim) ! dofIdx"
  have exact: "sw ! ?c + sg ! ?c + doubleMinus (doubleMinus 1 (sw ! ?c)) (sg ! ?c) = 1"
    if "doubleMinus 1 (sw ! ?c) = 1 - sw ! ?c \<and>
        doubleMinus (1 - sw ! ?c) (sg ! ?c) = 1 - sw ! ?c - sg ! ?c"
    using that by simp
  have near: "\<bar>sw ! ?c + sg ! ?c + doubleMinus (doubleMinus 1 (sw ! ?c)) (sg ! ?c) - 1\<bar> \<le> 1 / 2 ^ 52"
    if "0 \<le> sw ! ?c \<and> sw ! ?c \<le> 1 \<and> 0 \<le> sg ! ?c \<and> sg ! ?c \<le> 1"
    using that by (intro oil_saturation_sum) simp_all
  show ?thesis
    using k exact near unfolding st
    by (simp add: initialFluidState_saturation initialFluidState_pressure)
qed

text \<open>
  C5. After \<^verbatim>\<open>readInitialCondition_\<close> has succeeded, in the state of every cell
  \<open>dofIdx < numDof\<close> the water and the gas phase consist of their own component alone, and
  the oil phase holds the gas mole fraction
  \<open>xoG = XoG * MO / ((MO - MG) * XoG + MG)\<close> with \<open>XoG = Rs * rhogref / rhoo\<close> and
  \<open>rhoo = surfaceDensity(oil) / Bo\<close>, \<open>Bo\<close> and \<open>Rs\<close> taken at the oil pressure of the
  cell, the oil mole fraction \<open>1 - xoG\<close> and no water (the three divisors not being
  zero). In every phase the mole fractions of the components add up to one.
\<close>

theorem C5_initial_mole_fractions:
  fixes FS :: FluidSystem and p' :: EclProblem and dofIdx :: nat
  defines "st \<equiv> initialFluidStates p' ! dofIdx"
  defines "Bo \<equiv> oilFormationVolumeFactor FS (fsPressure st oilPhaseIdx)"
  defines "Rs \<equiv> gasDissolutionFactor FS (fsPressure st oilPhaseIdx)"
  defines "rhoo \<equiv> surfaceDensity FS oilPhaseIdx / Bo"
  defines "XoG \<equiv> Rs * surfaceDensity FS gasPhaseIdx / rhoo"
  defines "MG \<equiv> molarMass FS gasCompIdx"
  defines "MO \<equiv> molarMass FS oilCompIdx"
  defines "xoG \<equiv> XoG * MO / ((MO - MG) * XoG + MG)"
  assumes ok: "readInitialCondition FS fs0 sim p = Inr p'"
    and dof: "dofIdx < numDof sim"
    and cell: "dofIdx < length (globalCell (grid sim))"
    and defined: "Bo \<noteq> 0" "rhoo \<noteq> 0" "(MO - MG) * XoG + MG \<noteq> 0"
  shows "fsMoleFraction st waterPhaseIdx waterCompIdx = 1
       \<and> fsMoleFraction st waterPhaseIdx oilCompIdx = 0
       \<and> fsMoleFraction st waterPhaseIdx gasCompIdx = 0
       \<and> fsMoleFraction st gasPhaseIdx gasCompIdx = 1
       \<and> fsMoleFraction st gasPhaseIdx oilCompIdx = 0
       \<and> fsMoleFraction st gasPhaseIdx waterCompIdx = 0
       \<and> fsMoleFraction st oilPhaseIdx gasCompIdx = xoG
       \<and> fsMoleFraction st oilPhaseIdx oilCompIdx = 1 - xoG
       \<and> fsMoleFraction st oilPhaseIdx waterCompIdx = 0
       \<and> (\<forall>phaseIdx. sum_list (map (fsMoleFraction st phaseIdx) allComponents) = 1)"
proof -
  from readInitialCondition_InrD [OF ok] dof obtain sw sg pr where
    s: "st = initialFluidState FS (temperature p) sw sg pr (globalCell (grid sim) ! dofIdx) fs0"
    unfolding st_def by blast
  have pr: "fsPressure st oilPhaseIdx = pr ! (globalCell (grid sim) ! dofIdx)"
    unfolding s by (rule initialFluidState_pressure)
  have m: "fsMoleFraction st phaseIdx compIdx =
             (case phaseIdx of
                waterPhaseIdx \<Rightarrow> (if compIdx = waterCompIdx then 1 else 0)
              | gasPhaseIdx \<Rightarrow> (if compIdx = gasCompIdx then 1 else 0)
              | oilPhaseIdx \<Rightarrow> (case compIdx of
                                  gasCompIdx \<Rightarrow> xoG | oilCompIdx \<Rightarrow> 1 - xoG | waterCompIdx \<Rightarrow> 0))"
    for phaseIdx compIdx
    unfolding xoG_def XoG_def rhoo_def Rs_def Bo_def MG_def MO_def pr
    unfolding s initialFluidState_moleFraction Let_def ..
  have "sum_list (map (fsMoleFraction st phaseIdx) allComponents) = 1" for phaseIdx
    by (cases phaseIdx) (simp_all add: m allComponents_def)
  then show ?thesis by (simp add: m)
qed

text \<open>
  C7. When one of the keywords SWAT, SGAS, PRESSURE and RS is missing from the deck,
  \<^verbatim>\<open>readInitialCondition_\<close> returns an error and no problem with fluid states. The text
  of the error names a keyword that is missing, and it names the keyword \<open>k\<close> itself when
  the other three are present.
\<close>

theorem C7_missing_initial_arrays:
  assumes key: "k \<in> set [''SWAT'', ''SGAS'', ''PRESSURE'', ''RS'']"
    and missing: "siDoubleData (deck sim) k = None"
  shows "\<exists>e. readInitialCondition FS fs0 sim p = Inl e \<and>
           (\<exists>k' \<in> set [''SWAT'', ''SGAS'', ''PRESSURE'', ''RS''].
              siDoubleData (deck sim) k' = None \<and> sublist k' (errorMessage e)) \<and>
           ((\<forall>k' \<in> set [''SWAT'', ''SGAS'', ''PRESSURE'', ''RS''].
               k' \<noteq> k \<longrightarrow> siDoubleData (deck sim) k' \<noteq> None) \<longrightarrow>
            sublist k (errorMessage e))"
proof -
  let ?d = "siDoubleData (deck sim)"
  consider (swat) "?d ''SWAT'' = None"
    | (sgas) "?d ''SWAT'' \<noteq> None" "?d ''SGAS'' = None"
    | (pressure) "?d ''SWAT'' \<noteq> None" "?d ''SGAS'' \<noteq> None" "?d ''PRESSURE'' = None"
    | (rs) "?d ''SWAT'' \<noteq> None" "?d ''SGAS'' \<noteq> None" "?d ''PRESSURE'' \<noteq> None" "?d ''RS'' = None"
    using key missing by auto
  then show ?thesis
  proof cases
    case swat
    then have "readInitialCondition FS fs0 sim p =
        Inl (RuntimeError (''So far, the Eclipse input file requires the presence of the SWAT '' @
                              ''and SGAS keywords''))"
      by (simp add: readInitialCondition_def Let_def hasKeyword_def)
    moreover have "k = ''SWAT''"
      if "\<forall>k' \<in> set [''SWAT'', ''SGAS'', ''PRESSURE'', ''RS'']. k' \<noteq> k \<longrightarrow> ?d k' \<noteq> None"
      using that swat by auto
    ultimately show ?thesis
      using swat sublist_messages(1) by auto
  next
    case sgas
    then have "readInitialCondition FS fs0 sim p =
        Inl (RuntimeError (''So far, the Eclipse input file requires the presence of the SWAT '' @
                              ''and SGAS keywords''))"
      by (simp add: readInitialCondition_def Let_def hasKeyword_def)
    moreover have "k = ''SGAS''"
      if "\<forall>k' \<in> set [''SWAT'', ''SGAS'', ''PRESSURE'', ''RS'']. k' \<noteq> k \<longrightarrow> ?d k' \<noteq> None"
      using that sgas by auto
    ultimately show ?thesis
      using sgas sublist_messages(2) by auto
  next
    case pressure
    then have "readInitialCondition FS fs0 sim p =
        Inl (RuntimeError (''So far, the Eclipse input file requires the presence of the PRESSURE '' @
                              ''keyword''))"
      by (simp add: readInitialCondition_def Let_def hasKeyword_def)
    moreover have "k = ''PRESSURE''"
      if "\<forall>k' \<in> set [''SWAT'', ''SGAS'', ''PRESSURE'', ''RS'']. k' \<noteq> k \<longrightarrow> ?d k' \<noteq> None"
      using that pressure by auto
    ultimately show ?thesis
      using pressure sublist_messages(3) by auto
  next
    case rs
    then have "readInitialCondition FS fs0 sim p = Inl (KeywordNotFound ''RS'')"
      by (auto simp: readInitialCondition_def Let_def hasKeyword_def getKeyword_def)
    moreover have "k = ''RS''"
      if "\<forall>k' \<in> set [''SWAT'', ''SGAS'', ''PRESSURE'', ''RS'']. k' \<noteq> k \<longrightarrow> ?d k' \<noteq> None"
      using that rs by auto
    ultimately show ?thesis
      using rs by auto
  qed
qed


lemma inactive_initial_ok:
  "readInitialCondition exampleFluidSystem exampleFluidState (inactiveSim [1, 1, 2])
     (newProblem 293.15) =
   Inr (projr (readInitialCondition exampleFluidSystem exampleFluidState (inactiveSim [1, 1, 2])
     (newProblem 293.15)))"
proof -
  have "\<forall>dofIdx < numDof (inactiveSim [1, 1, 2]).
          globalCell (grid (inactiveSim [1, 1, 2])) ! dofIdx \<le> 3 * 1 * 1"
    by (simp add: inactiveSim_def inactiveGrid_def nth_Cons split: nat.splits)
  then have "\<exists>p'. readInitialCondition exampleFluidSystem exampleFluidState (inactiveSim [1, 1, 2])
     (newProblem 293.15) = Inr p'"
    by (intro readInitialCondition_ok [where sw = "[0.125, 0.25, 0.5]" and sg = "[0.125, 0.25, 0.75]"
          and pr = "[100, 200, 300]" and rs = "[50, 50, 50]" and nx = 3 and ny = 1 and nz = 1])
       (simp_all add: inactiveSim_def inactiveDeck_def inactiveGrid_def)
  then show ?thesis by (rule Inr_projr)
qed

lemma inactive_dof:
  "(0::nat) < numDof (inactiveSim s)" "(1::nat) < numDof (inactiveSim s)"
  "(0::nat) < length (globalCell (grid (inactiveSim s)))"
  "(1::nat) < length (globalCell (grid (inactiveSim s)))"
  by (simp_all add: inactiveSim_def inactiveGrid_def)

lemma inactive_saturation_values:
  "doubleMinus (doubleMinus 1 (1 / 2)) (3 / 4) = - (1 / 4)"
  "doubleMinus (doubleMinus 1 (1 / 4)) (1 / 4) = 1 / 2"
  by (simp_all add: double_eval)

theorem C4_saturations_in_double_precision_witness:
  "fsSaturation (initialFluidStates (projr (readInitialCondition exampleFluidSystem
      exampleFluidState (inactiveSim [1, 1, 2]) (newProblem 293.15))) ! 1) waterPhaseIdx = 0.5
   \<and> fsSaturation (initialFluidStates (projr (readInitialCondition exampleFluidSystem
      exampleFluidState (inactiveSim [1, 1, 2]) (newProblem 293.15))) ! 1) gasPhaseIdx = 0.75
   \<and> fsSaturation (initialFluidStates (projr (readInitialCondition exampleFluidSystem
      exampleFluidState (inactiveSim [1, 1, 2]) (newProblem 293.15))) ! 1) oilPhaseIdx = - 0.25
   \<and> fsPressure (initialFluidStates (projr (readInitialCondition exampleFluidSystem
      exampleFluidState (inactiveSim [1, 1, 2]) (newProblem 293.15))) ! 1) waterPhaseIdx = 300
   \<and> fsPressure (initialFluidStates (projr (readInitialCondition exampleFluidSystem
      exampleFluidState (inactiveSim [1, 1, 2]) (newProblem 293.15))) ! 1) gasPhaseIdx = 300
   \<and> fsSaturation (initialFluidStates (projr (readInitialCondition exampleFluidSystem
        exampleFluidState (inactiveSim [1, 1, 2]) (newProblem 293.15))) ! 1) waterPhaseIdx
      + fsSaturation (initialFluidStates (projr (readInitialCondition exampleFluidSystem
        exampleFluidState (inactiveSim [1, 1, 2]) (newProblem 293.15))) ! 1) gasPhaseIdx
      + fsSaturation (initialFluidStates (projr (readInitialCondition exampleFluidSystem
        exampleFluidState (inactiveSim [1, 1, 2]) (newProblem 293.15))) ! 1) oilPhaseIdx = 1
   \<and> fsSaturation (initialFluidStates (projr (readInitialCondition exampleFluidSystem
      exampleFluidState (inactiveSim [1, 1, 2]) (newProblem 293.15))) ! 0) oilPhaseIdx = 0.5
   \<and> \<bar>fsSaturation (initialFluidStates (projr (readInitialCondition exampleFluidSystem
        exampleFluidState (inactiveSim [1, 1, 2]) (newProblem 293.15))) ! 0) waterPhaseIdx
      + fsSaturation (initialFluidStates (projr (readInitialCondition exampleFluidSystem
        exampleFluidState (inactiveSim [1, 1, 2]) (newProblem 293.15))) ! 0) gasPhaseIdx
      + fsSaturation (initialFluidStates (projr (readInitialCondition exampleFluidSystem
        exampleFluidState (inactiveSim [1, 1, 2]) (newProblem 293.15))) ! 0) oilPhaseIdx - 1\<bar>
        \<le> 1 / 2 ^ 52"
proof -
  let ?st = "\<lambda>i. initialFluidStates (projr (readInitialCondition exampleFluidSystem
      exampleFluidState (inactiveSim [1, 1, 2]) (newProblem 293.15))) ! i"
  from C4_saturations_in_double_precision [OF inactive_initial_ok inactive_dof(2) inactive_dof(4)]
  have 1: "fsSaturation (?st 1) waterPhaseIdx = 0.5 \<and> fsSaturation (?st 1) gasPhaseIdx = 0.75
      \<and> fsSaturation (?st 1) oilPhaseIdx = - 0.25
      \<and> fsPressure (?st 1) waterPhaseIdx = 300 \<and> fsPressure (?st 1) gasPhaseIdx = 300
      \<and> fsSaturation (?st 1) waterPhaseIdx + fsSaturation (?st 1) gasPhaseIdx
          + fsSaturation (?st 1) oilPhaseIdx = 1"
    by (simp add: inactive_sim_fields) (auto simp: inactiveDeck_def inactive_saturation_values)
  from C4_saturations_in_double_precision [OF inactive_initial_ok inactive_dof(1) inactive_dof(3)]
  have 0: "fsSaturation (?st 0) oilPhaseIdx = 0.5
      \<and> \<bar>fsSaturation (?st 0) waterPhaseIdx + fsSaturation (?st 0) gasPhaseIdx
          + fsSaturation (?st 0) oilPhaseIdx - 1\<bar> \<le> 1 / 2 ^ 52"
    by (simp add: inactive_sim_fields) (auto simp: inactiveDeck_def inactive_saturation_values)
  show ?thesis using 0 1 by simp
qed

text \<open>
  The sum of the three saturations is not always one. In the scenario of the specification
  (water 0.3, gas 0.2) the oil saturation is \<open>0.49999999999999994\<close>, not 0.5, and the three
  stored values add up to \<open>1 - 2^-54\<close>. With water 0.01 and gas 0.06 the three stored values
  add up to less than one as real numbers, and their sum in double arithmetic is
  \<open>0.9999999999999999\<close>.
\<close>

lemma scenario_doubles:
  "roundToDouble (3 / 10) = 5404319552844595 / 18014398509481984"
  "roundToDouble (1 / 5) = 3602879701896397 / 18014398509481984"
  "roundToDouble (1 / 100) = 5764607523034235 / 576460752303423488"
  "roundToDouble (3 / 50) = 1080863910568919 / 18014398509481984"
  by (simp_all add: double_eval)

lemma scenario_oil:
  "doubleMinus (doubleMinus 1 (5404319552844595 / 18014398509481984))
     (3602879701896397 / 18014398509481984) = 9007199254740991 / 18014398509481984"
  "doubleMinus (doubleMinus 1 (5764607523034235 / 576460752303423488))
     (1080863910568919 / 18014398509481984) = 4188347653454561 / 4503599627370496"
  by (simp_all add: double_eval)

lemma scenario_double_sum:
  "doublePlus (doublePlus (5764607523034235 / 576460752303423488)
       (1080863910568919 / 18014398509481984)) (4188347653454561 / 4503599627370496) =
     9007199254740991 / 9007199254740992"
  by (simp add: double_eval)

lemma scenario_first_cell:
  assumes "siDoubleData d ''SWAT'' = Some sw" "siDoubleData d ''SGAS'' = Some sg"
    "siDoubleData d ''PRESSURE'' = Some pr" "siDoubleData d ''RS'' = Some rs"
    "length sw = 4" "length sg = 4" "length pr = 4" "length rs = 4"
  shows "initialFluidStates (projr (readInitialCondition FS fs0 (exampleSim\<lparr>deck := d\<rparr>) p)) ! 0 =
           initialFluidState FS (temperature p) sw sg pr 0 fs0"
proof -
  let ?sim = "exampleSim\<lparr>deck := d\<rparr>"
  have f: "deck ?sim = d" "numDof ?sim = 4" "globalCell (grid ?sim) = [0, 1, 2, 3]"
    "logicalCartesianSize (grid ?sim) = (2, 2, 1)"
    by (simp_all add: exampleSim_def exampleGrid_def)
  have "\<forall>dofIdx < numDof ?sim. globalCell (grid ?sim) ! dofIdx \<le> 2 * 2 * 1"
    unfolding f by (auto simp: nth_Cons split: nat.splits)
  then have "\<exists>p'. readInitialCondition FS fs0 ?sim p = Inr p'"
    using assms
    by (intro readInitialCondition_ok [where sw = sw and sg = sg and pr = pr and rs = rs
          and nx = 2 and ny = 2 and nz = 1]) (simp_all add: exampleSim_def exampleGrid_def)
  then have "readInitialCondition FS fs0 ?sim p = Inr (projr (readInitialCondition FS fs0 ?sim p))"
    by (rule Inr_projr)
  from readInitialCondition_InrD [OF this] show ?thesis
    using assms by (auto simp: exampleSim_def exampleGrid_def)
qed

theorem C4_saturation_sum_counterexample:
  "fsSaturation (initialFluidStates (projr (readInitialCondition exampleFluidSystem
      exampleFluidState exampleSim (newProblem 293.15))) ! 0) oilPhaseIdx =
     9007199254740991 / 18014398509481984
   \<and> fsSaturation (initialFluidStates (projr (readInitialCondition exampleFluidSystem
        exampleFluidState exampleSim (newProblem 293.15))) ! 0) waterPhaseIdx
     + fsSaturation (initialFluidStates (projr (readInitialCondition exampleFluidSystem
        exampleFluidState exampleSim (newProblem 293.15))) ! 0) gasPhaseIdx
     + fsSaturation (initialFluidStates (projr (readInitialCondition exampleFluidSystem
        exampleFluidState exampleSim (newProblem 293.15))) ! 0) oilPhaseIdx \<noteq> 1
   \<and> fsSaturation (initialFluidStates (projr (readInitialCondition exampleFluidSystem
        exampleFluidState roundingSim (newProblem 293.15))) ! 0) waterPhaseIdx
     + fsSaturation (initialFluidStates (projr (readInitialCondition exampleFluidSystem
        exampleFluidState roundingSim (newProblem 293.15))) ! 0) gasPhaseIdx
     + fsSaturation (initialFluidStates (projr (readInitialCondition exampleFluidSystem
        exampleFluidState roundingSim (newProblem 293.15))) ! 0) oilPhaseIdx \<noteq> 1
   \<and> doublePlus
       (doublePlus
         (fsSaturation (initialFluidStates (projr (readInitialCondition exampleFluidSystem
            exampleFluidState roundingSim (newProblem 293.15))) ! 0) waterPhaseIdx)
         (fsSaturation (initialFluidStates (projr (readInitialCondition exampleFluidSystem
            exampleFluidState roundingSim (newProblem 293.15))) ! 0) gasPhaseIdx))
       (fsSaturation (initialFluidStates (projr (readInitialCondition exampleFluidSystem
          exampleFluidState roundingSim (newProblem 293.15))) ! 0) oilPhaseIdx) \<noteq> 1"
proof -
  have e: "exampleSim = exampleSim\<lparr>deck := exampleDeck\<rparr>"
    by (simp add: exampleSim_def)
  have "initialFluidStates (projr (readInitialCondition exampleFluidSystem
      exampleFluidState (exampleSim\<lparr>deck := exampleDeck\<rparr>) (newProblem 293.15))) ! 0 =
    initialFluidState exampleFluidSystem (temperature (newProblem 293.15))
      (replicate 4 (roundToDouble 0.3)) (replicate 4 (roundToDouble 0.2))
      [20000000, 20000000, 20000000, 20000000] 0 exampleFluidState"
    by (rule scenario_first_cell [where rs = "[50, 50, 50, 50]"]) (simp_all add: exampleDeck_def)
  then have s:
    "fsSaturation (initialFluidStates (projr (readInitialCondition exampleFluidSystem
      exampleFluidState exampleSim (newProblem 293.15))) ! 0) waterPhaseIdx =
      5404319552844595 / 18014398509481984"
    "fsSaturation (initialFluidStates (projr (readInitialCondition exampleFluidSystem
      exampleFluidState exampleSim (newProblem 293.15))) ! 0) gasPhaseIdx =
      3602879701896397 / 18014398509481984"
    "fsSaturation (initialFluidStates (projr (readInitialCondition exampleFluidSystem
      exampleFluidState exampleSim (newProblem 293.15))) ! 0) oilPhaseIdx =
      9007199254740991 / 18014398509481984"
    unfolding e [symmetric]
    by (simp_all add: initialFluidState_saturation scenario_doubles scenario_oil)
  have "initialFluidStates (projr (readInitialCondition exampleFluidSystem
      exampleFluidState roundingSim (newProblem 293.15))) ! 0 =
    initialFluidState exampleFluidSystem (temperature (newProblem 293.15))
      (replicate 4 (roundToDouble 0.01)) (replicate 4 (roundToDouble 0.06))
      [20000000, 20000000, 20000000, 20000000] 0 exampleFluidState"
    unfolding roundingSim_def
    by (rule scenario_first_cell [where rs = "[50, 50, 50, 50]"]) (simp_all add: exampleDeck_def)
  then have r:
    "fsSaturation (initialFluidStates (projr (readInitialCondition exampleFluidSystem
      exampleFluidState roundingSim (newProblem 293.15))) ! 0) waterPhaseIdx =
      5764607523034235 / 576460752303423488"
    "fsSaturation (initialFluidStates (projr (readInitialCondition exampleFluidSystem
      exampleFluidState roundingSim (newProblem 293.15))) ! 0) gasPhaseIdx =
      1080863910568919 / 18014398509481984"
    "fsSaturation (initialFluidStates (projr (readInitialCondition exampleFluidSystem
      exampleFluidState roundingSim (newProblem 293.15))) ! 0) oilPhaseIdx =
      4188347653454561 / 4503599627370496"
    by (simp_all add: initialFluidState_saturation scenario_doubles scenario_oil)
  show ?thesis
    unfolding s r by (simp add: scenario_double_sum)
qed

theorem C5_initial_mole_fractions_witness:
  "fsMoleFraction (initialFluidStates (projr (readInitialCondition exampleFluidSystem
      exampleFluidState (inactiveSim [1, 1, 2]) (newProblem 293.15))) ! 0) oilPhaseIdx gasCompIdx = 5 / 13
   \<and> fsMoleFraction (initialFluidStates (projr (readInitialCondition exampleFluidSystem
      exampleFluidState (inactiveSim [1, 1, 2]) (newProblem 293.15))) ! 0) oilPhaseIdx oilCompIdx = 8 / 13
   \<and> fsMoleFraction (initialFluidStates (projr (readInitialCondition exampleFluidSystem
      exampleFluidState (inactiveSim [1, 1, 2]) (newProblem 293.15))) ! 0) waterPhaseIdx waterCompIdx = 1
   \<and> fsMoleFraction (initialFluidStates (projr (readInitialCondition exampleFluidSystem
      exampleFluidState (inactiveSim [1, 1, 2]) (newProblem 293.15))) ! 0) gasPhaseIdx oilCompIdx = 0
   \<and> sum_list (map (fsMoleFraction (initialFluidStates (projr (readInitialCondition
      exampleFluidSystem exampleFluidState (inactiveSim [1, 1, 2]) (newProblem 293.15))) ! 0)
        oilPhaseIdx) allComponents) = 1"
proof -
  have d: "oilFormationVolumeFactor exampleFluidSystem x \<noteq> 0"
    "surfaceDensity exampleFluidSystem oilPhaseIdx / oilFormationVolumeFactor exampleFluidSystem x \<noteq> 0"
    "(molarMass exampleFluidSystem oilCompIdx - molarMass exampleFluidSystem gasCompIdx) *
       (gasDissolutionFactor exampleFluidSystem x * surfaceDensity exampleFluidSystem gasPhaseIdx /
         (surfaceDensity exampleFluidSystem oilPhaseIdx / oilFormationVolumeFactor exampleFluidSystem x))
       + molarMass exampleFluidSystem gasCompIdx \<noteq> 0" for x
    by (simp_all add: exampleFluidSystem_def)
  from C5_initial_mole_fractions [OF inactive_initial_ok inactive_dof(1) inactive_dof(3) d]
  show ?thesis
    by (simp add: exampleFluidSystem_def)
qed

lemma missing_sim_keys:
  "siDoubleData (deck (missingSim name)) k =
     (if k = name then None else siDoubleData exampleDeck k)"
  by (simp add: missingSim_def)

theorem C7_missing_initial_arrays_witness:
  "isl (readInitialCondition exampleFluidSystem exampleFluidState (missingSim ''RS'')
          (newProblem 293.15))
   \<and> sublist ''RS'' (errorMessage (projl (readInitialCondition exampleFluidSystem
          exampleFluidState (missingSim ''RS'') (newProblem 293.15))))
   \<and> isl (readInitialCondition exampleFluidSystem exampleFluidState (missingSim ''SGAS'')
          (newProblem 293.15))
   \<and> sublist ''SGAS'' (errorMessage (projl (readInitialCondition exampleFluidSystem
          exampleFluidState (missingSim ''SGAS'') (newProblem 293.15))))"
proof -
  have k: "''RS'' \<in> set [''SWAT'', ''SGAS'', ''PRESSURE'', ''RS'']"
          "''SGAS'' \<in> set [''SWAT'', ''SGAS'', ''PRESSURE'', ''RS'']"
    by simp_all
  have m: "siDoubleData (deck (missingSim ''RS'')) ''RS'' = None"
          "siDoubleData (deck (missingSim ''SGAS'')) ''SGAS'' = None"
    by (simp_all add: missing_sim_keys)
  have o: "\<forall>k' \<in> set [''SWAT'', ''SGAS'', ''PRESSURE'', ''RS''].
             k' \<noteq> ''RS'' \<longrightarrow> siDoubleData (deck (missingSim ''RS'')) k' \<noteq> None"
          "\<forall>k' \<in> set [''SWAT'', ''SGAS'', ''PRESSURE'', ''RS''].
             k' \<noteq> ''SGAS'' \<longrightarrow> siDoubleData (deck (missingSim ''SGAS'')) k' \<noteq> None"
    by (simp_all add: missing_sim_keys exampleDeck_def)
  from C7_missing_initial_arrays [OF k(1) m(1), of exampleFluidSystem exampleFluidState
      "newProblem 293.15"] o(1)
  have 1: "isl (readInitialCondition exampleFluidSystem exampleFluidState (missingSim ''RS'')
             (newProblem 293.15)) \<and>
           sublist ''RS'' (errorMessage (projl (readInitialCondition exampleFluidSystem
             exampleFluidState (missingSim ''RS'') (newProblem 293.15))))"
    by (metis sum.disc(1) sum.sel(1))
  from C7_missing_initial_arrays [OF k(2) m(2), of exampleFluidSystem exampleFluidState
      "newProblem 293.15"] o(2)
  have 2: "isl (readInitialCondition exampleFluidSystem exampleFluidState (missingSim ''SGAS'')
             (newProblem 293.15)) \<and>
           sublist ''SGAS'' (errorMessage (projl (readInitialCondition exampleFluidSystem
             exampleFluidState (missingSim ''SGAS'') (newProblem 293.15))))"
    by (metis sum.disc(1) sum.sel(1))
  show ?thesis using 1 2 by blast
qed

end
